theory Spec2Isabelle
  imports Main
begin

text \<open>
  A model of the domain provisioning workflow. The sources are six modules in four files:
  \<open>config.ts\<close>; \<open>utils.ts\<close>, which is followed in the same file by the modules \<open>vercel\<close> and
  \<open>cloudflare\<close>; \<open>namecheap.ts\<close>, which is followed in the same file by \<open>index\<close> (the
  workflow); and \<open>deploy.ts\<close>, which the workflow does not use. Every function is modelled
  under its own name; a name of the source that is taken in Isabelle has a prime or a
  short form, as said where it occurs.
\<close>

section \<open>JavaScript values and string operations\<close>

text \<open>
  A thrown JavaScript \<open>Error\<close> carries a message. \<open>TypeError\<close> is what the runtime throws
  when a property of \<open>undefined\<close> is read.
\<close>

datatype error = Error (message: string) | TypeError (message: string)

text \<open>\<open>x || d\<close> on an optional string: \<open>undefined\<close> and the empty string are falsy.\<close>

definition or_default :: "string option \<Rightarrow> string \<Rightarrow> string" where
  "or_default x d = (case x of None \<Rightarrow> d | Some s \<Rightarrow> if s = [] then d else s)"

text \<open>An optional string inside a template literal: \<open>undefined\<close> prints as "undefined".\<close>

definition interpolate :: "string option \<Rightarrow> string" where
  "interpolate x = (case x of None \<Rightarrow> ''undefined'' | Some s \<Rightarrow> s)"

text \<open>\<open>Array.prototype.join\<close>.\<close>

fun join :: "string \<Rightarrow> string list \<Rightarrow> string" where
  "join sep [] = []"
| "join sep [x] = x"
| "join sep (x # y # ys) = x @ sep @ join sep (y # ys)"

text \<open>\<open>String.prototype.split\<close> with a separator of one character: never an empty array.\<close>

fun js_split :: "char \<Rightarrow> string \<Rightarrow> string list" where
  "js_split c [] = [[]]"
| "js_split c (x # xs) =
     (if x = c then [] # js_split c xs
      else (case js_split c xs of [] \<Rightarrow> [[x]] | p # ps \<Rightarrow> (x # p) # ps))"

section \<open>Configuration (config.ts)\<close>

datatype service = Namecheap | Cloudflare | Vercel | Registrant | Github | Deploy

fun serviceName :: "service \<Rightarrow> string" where
  "serviceName Namecheap = ''namecheap''"
| "serviceName Cloudflare = ''cloudflare''"
| "serviceName Vercel = ''vercel''"
| "serviceName Registrant = ''registrant''"
| "serviceName Github = ''github''"
| "serviceName Deploy = ''deploy''"

fun requiredFields :: "service \<Rightarrow> string list" where
  "requiredFields Namecheap = [''apiUser'', ''apiKey'', ''username'', ''clientIp'']"
| "requiredFields Cloudflare = [''apiToken'', ''accountId'']"
| "requiredFields Vercel = [''token'', ''projectId'']"
| "requiredFields Registrant = [''firstName'', ''lastName'', ''address1'', ''city'',
     ''stateProvince'', ''postalCode'', ''country'', ''phone'', ''email'']"
| "requiredFields Github = [''token'']"
| "requiredFields Deploy = []"

text \<open>
  The process-wide \<open>config\<close> object: \<open>setting s f\<close> is \<open>config[s][f]\<close>, a string that is
  empty when the environment variable is not set.
\<close>

record config =
  setting :: "service \<Rightarrow> string \<Rightarrow> string"
  useDefaultContacts :: bool

text \<open>The loop of \<open>validateConfig\<close>: the first required field that is empty throws.\<close>

fun checkFields :: "config \<Rightarrow> service \<Rightarrow> string list \<Rightarrow> error + unit" where
  "checkFields cfg s [] = Inr ()"
| "checkFields cfg s (field # rest) =
     (if setting cfg s field = []
      then Inl (Error (''Missing required '' @ serviceName s @ '' config: '' @ field))
      else checkFields cfg s rest)"

definition validateConfig :: "config \<Rightarrow> service \<Rightarrow> error + unit" where
  "validateConfig cfg s =
     (if s = Deploy then
        (if setting cfg Github ''token'' = []
         then Inl (Error ''Missing required config for deploy: GITHUB_TOKEN'')
         else if setting cfg Vercel ''token'' = []
         then Inl (Error ''Missing required config for deploy: VERCEL_TOKEN'')
         else Inr ())
      else checkFields cfg s (requiredFields s))"

section \<open>Data of the adapters\<close>

subsection \<open>Registrar (namecheap.ts)\<close>

record AvailabilityResult =
  available :: bool
  domain :: string
  isPremium :: "bool option"
  premiumPrice :: "string option"
  regularPrice :: "string option"
  errorMessage :: "string option"

record PurchaseResult =
  success :: bool
  domainId :: "string option"
  transactionId :: "string option"
  orderId :: "string option"
  chargedAmount :: "string option"
  errorMessage :: "string option"

record SetNameserversResult =
  success :: bool
  errorMessage :: "string option"

text \<open>
  \<open>address2\<close> is optional in the interface; both places that build an address store a
  string. \<open>addressId\<close> is read from an attribute of the answer, which may be missing.
\<close>

record NamecheapAddress =
  addressId :: "string option"
  addressName :: string
  isDefault :: bool
  firstName :: string
  lastName :: string
  address1 :: string
  address2 :: string
  city :: string
  stateProvince :: string
  postalCode :: string
  country :: string
  phone :: string
  email :: string

text \<open>
  An element of the parsed XML answer: \<open>attr n\<close> is \<open>node.$.n\<close> and \<open>child n\<close> is the text of
  \<open>node.n\<close>; both are \<open>None\<close> where JavaScript reads \<open>undefined\<close>.
\<close>

record xml_node =
  attr :: "string \<Rightarrow> string option"
  child :: "string \<Rightarrow> string option"

text \<open>
  \<open>apiResponse.Errors?.Error\<close>: an array of elements with text \<open>_\<close>, one element, or nothing.
\<close>

datatype nc_errors = ErrorArray "string list" | ErrorSingle "string option" | ErrorAbsent

text \<open>
  What one request to the registrar gives: the request or the parsing throws (with that
  message), the answer has status ERROR, or it holds a command response, whose result
  is of type \<open>'r\<close>.
\<close>

datatype 'r nc_reply = NcThrows string | NcStatusError nc_errors | NcCommandResponse 'r

fun errorMsg :: "nc_errors \<Rightarrow> string" where
  "errorMsg (ErrorArray es) = join '', '' es"
| "errorMsg (ErrorSingle m) = or_default m ''Unknown error''"
| "errorMsg ErrorAbsent = ''Unknown error''"

subsection \<open>DNS provider (module cloudflare)\<close>

text \<open>Field \<open>id\<close> of the source is \<open>zid\<close> here.\<close>

record CloudflareZone =
  zid :: string
  name :: string
  status :: string
  nameServers :: "string list"

record CreateZoneResult =
  success :: bool
  zone :: "CloudflareZone option"
  errorMessage :: "string option"
  alreadyExists :: "bool option"

datatype record_type = A | AAAA | CNAME | TXT | MX

fun typeName :: "record_type \<Rightarrow> string" where
  "typeName A = ''A''"
| "typeName AAAA = ''AAAA''"
| "typeName CNAME = ''CNAME''"
| "typeName TXT = ''TXT''"
| "typeName MX = ''MX''"

record DNSRecord =
  type :: record_type
  name :: string
  content :: string
  ttl :: "int option"
  proxied :: "bool option"
  priority :: "int option"

record CreateDNSRecordResult =
  success :: bool
  recordId :: "string option"
  errorMessage :: "string option"

record DeleteDNSRecordResult =
  success :: bool
  errorMessage :: "string option"

text \<open>The value that \<open>createDNSRecords\<close> returns.\<close>

record CreateDNSRecordsResult =
  success :: bool
  recordIds :: "string list"
  errors :: "string list"

text \<open>
  A request through axios either throws an error (with \<open>response?.status\<close>,
  \<open>response?.data?.errors\<close> as pairs of code and message for the DNS provider,
  \<open>response?.data?.error?.message\<close> for the hosting platform, and its own \<open>message\<close>) or
  gives a response.
\<close>

record axios_error =
  response_status :: "int option"
  response_errors :: "(int \<times> string) list option"
  response_error_message :: "string option"
  error_message :: string

datatype 'r axios_reply = AxiosThrows axios_error | AxiosResponse 'r

text \<open>
  The body of a response of the DNS provider: \<open>data.success\<close> with \<open>data.result\<close>, or not
  with the messages of \<open>data.errors\<close> (\<open>None\<close> when the body has no such list).
\<close>

datatype 'r cf_body = CfSuccess 'r | CfFailure "string list option"

text \<open>A zone as the provider sends it; \<open>name_servers\<close> may be missing.\<close>

record zone_json =
  json_id :: string
  json_name :: string
  json_status :: string
  name_servers :: "string list option"

subsection \<open>Hosting platform (module vercel)\<close>

text \<open>Field \<open>value\<close> of the source is \<open>val\<close> here.\<close>

record VercelVerification =
  type :: string
  domain :: string
  val :: string
  reason :: string

record VercelDomain =
  name :: string
  verified :: bool
  verification :: "VercelVerification list option"

record VerificationRecord =
  type :: string
  name :: string
  val :: string

record AddDomainResult =
  success :: bool
  domain :: "VercelDomain option"
  errorMessage :: "string option"
  verificationRequired :: "bool option"
  verificationRecords :: "VerificationRecord list option"

record VerifyDomainResult =
  success :: bool
  verified :: bool
  errorMessage :: "string option"

text \<open>The value that \<open>removeDomain\<close> returns.\<close>

record RemoveDomainResult =
  success :: bool
  errorMessage :: "string option"

section \<open>The outside world\<close>

text \<open>
  The requests that the adapters send, with the data they carry. \<open>PostRecord\<close> carries
  the request body, in which \<open>ttl\<close> and \<open>proxied\<close> are always set.
\<close>

datatype api_call =
    DomainsCheck string
  | AddressGetList
  | AddressGetInfo string
  | DomainsCreate string int bool NamecheapAddress
  | DnsSetCustom string string string
  | PostZone string
  | GetZones string
  | PostRecord string DNSRecord
  | DeleteRecord string string
  | GetZone string
  | PostDomain string
  | GetDomain string
  | PostVerify string
  | DeleteDomain string

datatype log_level = LogInfo | LogSuccess | LogWarn | LogError

text \<open>
  The history of a run: every request sent, every delay awaited and, for \<open>rollback\<close>, every
  line given to the logger, in order. The logger calls of the other functions change no
  result and are not part of the history.
\<close>

datatype event = Http api_call | Sleep int | Log log_level string

type_synonym history = "event list"

text \<open>
  The configuration and the answers of the three providers. An answer may depend on
  everything that happened before: each function takes the history, whose last event is
  the request being answered.
\<close>

record env =
  config :: config
  domainsCheck :: "history \<Rightarrow> xml_node option nc_reply"
  addressGetList :: "history \<Rightarrow> xml_node list nc_reply"
  addressGetInfo :: "history \<Rightarrow> xml_node option nc_reply"
  domainsCreate :: "history \<Rightarrow> xml_node option nc_reply"
  dnsSetCustom :: "history \<Rightarrow> xml_node option nc_reply"
  postZone :: "history \<Rightarrow> zone_json cf_body axios_reply"
  getZones :: "history \<Rightarrow> zone_json list cf_body axios_reply"
  postRecord :: "history \<Rightarrow> string cf_body axios_reply"
  deleteRecord :: "history \<Rightarrow> unit cf_body axios_reply"
  getZone :: "history \<Rightarrow> (string \<times> string list option) cf_body axios_reply"
  postDomain :: "history \<Rightarrow> VercelDomain axios_reply"
  getDomain :: "history \<Rightarrow> VercelDomain axios_reply"
  postVerify :: "history \<Rightarrow> bool axios_reply"
  deleteDomain :: "history \<Rightarrow> unit axios_reply"

section \<open>Delay and retry (utils.ts)\<close>

definition delay :: "int \<Rightarrow> history \<Rightarrow> history" where
  "delay ms h = h @ [Sleep ms]"

text \<open>
  The options of \<open>retry\<close>; a missing option takes its default. The numbers of attempts
  and of milliseconds are integers here. The operation \<open>fn\<close> takes the
  history and returns what it threw (\<open>Inl\<close>) or its value (\<open>Inr\<close>) with the new history.
  \<open>onRetry\<close> is a callback that returns nothing; here it may extend the history.
\<close>

record 'e retry_options =
  maxAttempts :: "int option"
  initialDelayMs :: "int option"
  maxDelayMs :: "int option"
  onRetry :: "(int \<Rightarrow> 'e \<Rightarrow> history \<Rightarrow> history) option"

text \<open>
  The end of the \<open>catch\<close> block of \<open>retry\<close>, after a failed attempt that was not the last:
  the callback, then the delay before the next attempt.
\<close>

definition afterFailure ::
  "int \<Rightarrow> int \<Rightarrow> (int \<Rightarrow> 'e \<Rightarrow> history \<Rightarrow> history) option \<Rightarrow> int \<Rightarrow> 'e \<Rightarrow> history \<Rightarrow> history" where
  "afterFailure initialDelay maxDelay onR attempt e h =
     (let delayMs = min (initialDelay * 2 ^ nat (attempt - 1)) maxDelay;
          h1 = (case onR of None \<Rightarrow> h | Some f \<Rightarrow> f attempt e h)
      in delay delayMs h1)"

text \<open>
  The loop of \<open>retry\<close> from \<open>attempt\<close> on. \<open>lastError\<close> is \<open>None\<close> while it is
  \<open>undefined\<close>; leaving the loop throws it.
\<close>

function retry_loop ::
  "(history \<Rightarrow> ('e + 'a) \<times> history) \<Rightarrow> int \<Rightarrow> int \<Rightarrow> int \<Rightarrow>
   (int \<Rightarrow> 'e \<Rightarrow> history \<Rightarrow> history) option \<Rightarrow> int \<Rightarrow> 'e option \<Rightarrow> history \<Rightarrow>
   ('e option + 'a) \<times> history" where
  "retry_loop fn maxAtt initialDelay maxDelay onR attempt lastError h =
     (if attempt \<le> maxAtt then
        (case fn h of
           (Inr v, h1) \<Rightarrow> (Inr v, h1)
         | (Inl e, h1) \<Rightarrow>
             if attempt = maxAtt then (Inl (Some e), h1)
             else retry_loop fn maxAtt initialDelay maxDelay onR (attempt + 1) (Some e)
                    (afterFailure initialDelay maxDelay onR attempt e h1))
      else (Inl lastError, h))"
  by pat_completeness auto
termination
  by (relation "measure (\<lambda>(fn, maxAtt, initialDelay, maxDelay, onR, attempt, lastError, h).
        nat (maxAtt + 1 - attempt))") auto

definition retry ::
  "(history \<Rightarrow> ('e + 'a) \<times> history) \<Rightarrow> 'e retry_options \<Rightarrow> history \<Rightarrow>
   ('e option + 'a) \<times> history" where
  "retry fn options h =
     retry_loop fn
       (case maxAttempts options of None \<Rightarrow> 3 | Some n \<Rightarrow> n)
       (case initialDelayMs options of None \<Rightarrow> 1000 | Some n \<Rightarrow> n)
       (case maxDelayMs options of None \<Rightarrow> 30000 | Some n \<Rightarrow> n)
       (onRetry options) 1 None h"

section \<open>Registrar adapter (namecheap.ts)\<close>

definition checkAvailability :: "env \<Rightarrow> string \<Rightarrow> history \<Rightarrow> AvailabilityResult \<times> history" where
  "checkAvailability env d h =
     (let h1 = h @ [Http (DomainsCheck d)];
          failed = (\<lambda>m. \<lparr>available = False, AvailabilityResult.domain = d, isPremium = None,
                        premiumPrice = None, regularPrice = None,
                        AvailabilityResult.errorMessage = Some m\<rparr>)
      in (case domainsCheck env h1 of
            NcStatusError errs \<Rightarrow> (failed (errorMsg errs), h1)
          | NcCommandResponse None \<Rightarrow> (failed ''No domain check result returned'', h1)
          | NcCommandResponse (Some r) \<Rightarrow>
              (\<lparr>available = (attr r ''Available'' = Some ''true''),
                AvailabilityResult.domain = d,
                isPremium = Some (attr r ''IsPremiumName'' = Some ''true''),
                premiumPrice = attr r ''PremiumRegistrationPrice'',
                regularPrice = attr r ''RegularPrice'',
                AvailabilityResult.errorMessage = None\<rparr>, h1)
          | NcThrows m \<Rightarrow> (failed m, h1)))"

text \<open>The entries are \<open>(addressId, addressName, isDefault)\<close>.\<close>

definition getAddressList ::
  "env \<Rightarrow> history \<Rightarrow> (string option \<times> string option \<times> bool) list \<times> history" where
  "getAddressList env h =
     (let h1 = h @ [Http AddressGetList]
      in (case addressGetList env h1 of
            NcStatusError errs \<Rightarrow> ([], h1)
          | NcCommandResponse addresses \<Rightarrow>
              (map (\<lambda>addr. (attr addr ''AddressId'', attr addr ''AddressName'',
                             attr addr ''IsDefault'' = Some ''true'')) addresses, h1)
          | NcThrows m \<Rightarrow> ([], h1)))"

definition getAddressInfo :: "env \<Rightarrow> string option \<Rightarrow> history \<Rightarrow> NamecheapAddress option \<times> history" where
  "getAddressInfo env aid h =
     (let h1 = h @ [Http (AddressGetInfo (interpolate aid))]
      in (case addressGetInfo env h1 of
            NcStatusError errs \<Rightarrow> (None, h1)
          | NcCommandResponse None \<Rightarrow> (None, h1)
          | NcCommandResponse (Some addr) \<Rightarrow>
              (Some \<lparr>addressId = attr addr ''AddressId'',
                     addressName = or_default (attr addr ''AddressName'') [],
                     isDefault = True,
                     firstName = or_default (child addr ''FirstName'') [],
                     lastName = or_default (child addr ''LastName'') [],
                     address1 = or_default (child addr ''Address1'') [],
                     address2 = or_default (child addr ''Address2'') [],
                     city = or_default (child addr ''City'') [],
                     stateProvince = or_default (child addr ''StateProvince'') [],
                     postalCode = or_default (child addr ''Zip'') [],
                     country = or_default (child addr ''Country'') [],
                     phone = or_default (child addr ''Phone'') [],
                     email = or_default (child addr ''EmailAddress'') []\<rparr>, h1)
          | NcThrows m \<Rightarrow> (None, h1)))"

definition getDefaultAddress :: "env \<Rightarrow> history \<Rightarrow> NamecheapAddress option \<times> history" where
  "getDefaultAddress env h =
     (case getAddressList env h of (addresses, h1) \<Rightarrow>
        (case find (\<lambda>a. snd (snd a)) addresses of
           None \<Rightarrow>
             (case addresses of
                a # _ \<Rightarrow> getAddressInfo env (fst a) h1
              | [] \<Rightarrow> (None, h1))
         | Some defaultAddr \<Rightarrow> getAddressInfo env (fst defaultAddr) h1))"

definition splitDomain :: "string \<Rightarrow> error + string \<times> string" where
  "splitDomain d =
     (let parts = js_split (CHR ''.'') d
      in if length parts < 2 then Inl (Error (''Invalid domain format: '' @ d))
         else Inr (hd parts, join ''.'' (tl parts)))"

text \<open>
  \<open>purchaseDomain\<close>: \<open>splitDomain\<close> is called before the \<open>try\<close> block, so what it throws
  leaves the function (\<open>Inl\<close>).
\<close>

definition purchaseDomain ::
  "env \<Rightarrow> string \<Rightarrow> int \<Rightarrow> bool \<Rightarrow> history \<Rightarrow> (error + PurchaseResult) \<times> history" where
  "purchaseDomain env d years enableWhoisGuard h =
     (let failed = (\<lambda>m. \<lparr>PurchaseResult.success = False, domainId = None, transactionId = None,
                        orderId = None, chargedAmount = None,
                        PurchaseResult.errorMessage = Some m\<rparr>)
      in (case splitDomain d of
            Inl e \<Rightarrow> (Inl e, h)
          | Inr (sld, tld) \<Rightarrow>
             (case (if useDefaultContacts (config env) then getDefaultAddress env h
                    else (Some \<lparr>addressId = Some [], addressName = ''env'', isDefault = True,
                            firstName = setting (config env) Registrant ''firstName'',
                            lastName = setting (config env) Registrant ''lastName'',
                            address1 = setting (config env) Registrant ''address1'',
                            address2 = setting (config env) Registrant ''address2'',
                            city = setting (config env) Registrant ''city'',
                            stateProvince = setting (config env) Registrant ''stateProvince'',
                            postalCode = setting (config env) Registrant ''postalCode'',
                            country = setting (config env) Registrant ''country'',
                            phone = setting (config env) Registrant ''phone'',
                            email = setting (config env) Registrant ''email''\<rparr>, h)) of
                (None, h1) \<Rightarrow>
                  (Inr (failed (''Could not fetch default address from Namecheap account. '' @
                     ''Please add an address in your Namecheap dashboard or set '' @
                     ''NAMECHEAP_USE_DEFAULT_CONTACTS=false and provide REGISTRANT_* fields in .env'')),
                   h1)
              | (Some contactInfo, h1) \<Rightarrow>
                  (let h2 = h1 @ [Http (DomainsCreate d years enableWhoisGuard contactInfo)]
                   in (case domainsCreate env h2 of
                         NcStatusError errs \<Rightarrow> (Inr (failed (errorMsg errs)), h2)
                       | NcCommandResponse None \<Rightarrow>
                           (Inr (failed ''No domain create result returned''), h2)
                       | NcCommandResponse (Some r) \<Rightarrow>
                           (Inr \<lparr>PurchaseResult.success = (attr r ''Registered'' = Some ''true''),
                                 domainId = attr r ''DomainID'',
                                 transactionId = attr r ''TransactionID'',
                                 orderId = attr r ''OrderID'',
                                 chargedAmount = attr r ''ChargedAmount'',
                                 PurchaseResult.errorMessage = None\<rparr>, h2)
                       | NcThrows m \<Rightarrow> (Inr (failed m), h2))))))"

text \<open>\<open>setNameservers\<close>: again \<open>splitDomain\<close> is called before the \<open>try\<close> block.\<close>

definition setNameservers ::
  "env \<Rightarrow> string \<Rightarrow> string list \<Rightarrow> history \<Rightarrow> (error + SetNameserversResult) \<times> history" where
  "setNameservers env d nameservers h =
     (case splitDomain d of
        Inl e \<Rightarrow> (Inl e, h)
      | Inr (sld, tld) \<Rightarrow>
          (let h1 = h @ [Http (DnsSetCustom sld tld (join '','' nameservers))]
           in (case dnsSetCustom env h1 of
                 NcStatusError errs \<Rightarrow>
                   (Inr \<lparr>SetNameserversResult.success = False,
                         SetNameserversResult.errorMessage = Some (errorMsg errs)\<rparr>, h1)
               | NcCommandResponse r \<Rightarrow>
                   (Inr \<lparr>SetNameserversResult.success =
                           (case r of None \<Rightarrow> False | Some n \<Rightarrow> attr n ''Update'' = Some ''true''),
                         SetNameserversResult.errorMessage = None\<rparr>, h1)
               | NcThrows m \<Rightarrow>
                   (Inr \<lparr>SetNameserversResult.success = False,
                         SetNameserversResult.errorMessage = Some m\<rparr>, h1))))"

section \<open>DNS provider adapter (module cloudflare, in utils.ts)\<close>

text \<open>\<open>errors?.map((e) => e.message).join(', ')\<close> on the messages of an error list.\<close>

definition joinedErrors :: "string list option \<Rightarrow> string option" where
  "joinedErrors errs = map_option (join '', '') errs"

definition toZone :: "zone_json \<Rightarrow> CloudflareZone" where
  "toZone z = \<lparr>zid = json_id z, CloudflareZone.name = json_name z, status = json_status z,
               nameServers = (case name_servers z of None \<Rightarrow> [] | Some ns \<Rightarrow> ns)\<rparr>"

definition fetchExistingZone :: "env \<Rightarrow> string \<Rightarrow> history \<Rightarrow> CreateZoneResult \<times> history" where
  "fetchExistingZone env d h =
     (let h1 = h @ [Http (GetZones d)];
          failed = (\<lambda>m. \<lparr>CreateZoneResult.success = False, zone = None,
                        CreateZoneResult.errorMessage = Some m, alreadyExists = None\<rparr>)
      in (case getZones env h1 of
            AxiosResponse (CfSuccess (z # zs)) \<Rightarrow>
              (\<lparr>CreateZoneResult.success = True, zone = Some (toZone z),
                CreateZoneResult.errorMessage = None, alreadyExists = Some True\<rparr>, h1)
          | AxiosResponse (CfSuccess []) \<Rightarrow> (failed ''Zone not found'', h1)
          | AxiosResponse (CfFailure errs) \<Rightarrow> (failed ''Zone not found'', h1)
          | AxiosThrows e \<Rightarrow> (failed (error_message e), h1)))"

text \<open>
  The condition in the \<open>catch\<close> block of \<open>createZone\<close> under which the zone is taken to exist
  already.
\<close>

definition conflict :: "axios_error \<Rightarrow> bool" where
  "conflict e =
     (response_status e = Some 409 \<or>
      (case response_errors e of None \<Rightarrow> False | Some es \<Rightarrow> list_ex (\<lambda>x. fst x = 1061) es))"

definition createZone :: "env \<Rightarrow> string \<Rightarrow> history \<Rightarrow> CreateZoneResult \<times> history" where
  "createZone env d h =
     (let h1 = h @ [Http (PostZone d)];
          failed = (\<lambda>m. \<lparr>CreateZoneResult.success = False, zone = None,
                        CreateZoneResult.errorMessage = Some m, alreadyExists = None\<rparr>)
      in (case postZone env h1 of
            AxiosResponse (CfSuccess z) \<Rightarrow>
              (\<lparr>CreateZoneResult.success = True, zone = Some (toZone z),
                CreateZoneResult.errorMessage = None, alreadyExists = None\<rparr>, h1)
          | AxiosResponse (CfFailure errs) \<Rightarrow>
              (failed (or_default (joinedErrors errs) ''Unknown error''), h1)
          | AxiosThrows e \<Rightarrow>
              if conflict e then fetchExistingZone env d h1
              else (failed (or_default (joinedErrors (map_option (map snd) (response_errors e)))
                              (error_message e)), h1)))"

definition createDNSRecord ::
  "env \<Rightarrow> string \<Rightarrow> DNSRecord \<Rightarrow> history \<Rightarrow> CreateDNSRecordResult \<times> history" where
  "createDNSRecord env zoneId record h =
     (let body = \<lparr>DNSRecord.type = DNSRecord.type record, DNSRecord.name = DNSRecord.name record,
                   content = content record,
                   ttl = Some (case ttl record of None \<Rightarrow> 1 | Some t \<Rightarrow> if t = 0 then 1 else t),
                   proxied = Some (case proxied record of None \<Rightarrow> False | Some b \<Rightarrow> b),
                   priority = priority record\<rparr>;
          h1 = h @ [Http (PostRecord zoneId body)];
          failed = (\<lambda>m. \<lparr>CreateDNSRecordResult.success = False, recordId = None,
                        CreateDNSRecordResult.errorMessage = Some m\<rparr>)
      in (case postRecord env h1 of
            AxiosResponse (CfSuccess rid) \<Rightarrow>
              (\<lparr>CreateDNSRecordResult.success = True, recordId = Some rid,
                CreateDNSRecordResult.errorMessage = None\<rparr>, h1)
          | AxiosResponse (CfFailure errs) \<Rightarrow>
              (failed (or_default (joinedErrors errs) ''Unknown error''), h1)
          | AxiosThrows e \<Rightarrow>
              (failed (or_default (joinedErrors (map_option (map snd) (response_errors e)))
                         (error_message e)), h1)))"

text \<open>A string in a condition: \<open>undefined\<close> and the empty string are falsy.\<close>

definition truthy :: "string option \<Rightarrow> bool" where
  "truthy x = (case x of None \<Rightarrow> False | Some s \<Rightarrow> s \<noteq> [])"

text \<open>
  The loop of \<open>createDNSRecords\<close> over the records that are left, with the two arrays it
  pushes to.
\<close>

fun createDNSRecords_loop ::
  "env \<Rightarrow> string \<Rightarrow> DNSRecord list \<Rightarrow> string list \<Rightarrow> string list \<Rightarrow> history \<Rightarrow>
   string list \<times> string list \<times> history" where
  "createDNSRecords_loop env zoneId [] ids errs h = (ids, errs, h)"
| "createDNSRecords_loop env zoneId (record # rest) ids errs h =
     (case createDNSRecord env zoneId record h of (result, h1) \<Rightarrow>
        if CreateDNSRecordResult.success result \<and> truthy (recordId result)
        then createDNSRecords_loop env zoneId rest (ids @ [the (recordId result)]) errs h1
        else createDNSRecords_loop env zoneId rest ids
               (errs @ [typeName (DNSRecord.type record) @ '' '' @ DNSRecord.name record @ '': '' @
                        interpolate (CreateDNSRecordResult.errorMessage result)]) h1)"

definition createDNSRecords ::
  "env \<Rightarrow> string \<Rightarrow> DNSRecord list \<Rightarrow> history \<Rightarrow> CreateDNSRecordsResult \<times> history" where
  "createDNSRecords env zoneId records h =
     (case createDNSRecords_loop env zoneId records [] [] h of (ids, errs, h1) \<Rightarrow>
        (\<lparr>CreateDNSRecordsResult.success = (length errs = 0), recordIds = ids, errors = errs\<rparr>,
         h1))"

definition deleteDNSRecord ::
  "env \<Rightarrow> string \<Rightarrow> string \<Rightarrow> history \<Rightarrow> DeleteDNSRecordResult \<times> history" where
  "deleteDNSRecord env zoneId rid h =
     (let h1 = h @ [Http (DeleteRecord zoneId rid)];
          failed = (\<lambda>m. \<lparr>DeleteDNSRecordResult.success = False,
                        DeleteDNSRecordResult.errorMessage = Some m\<rparr>)
      in (case deleteRecord env h1 of
            AxiosResponse (CfSuccess u) \<Rightarrow>
              (\<lparr>DeleteDNSRecordResult.success = True,
                DeleteDNSRecordResult.errorMessage = None\<rparr>, h1)
          | AxiosResponse (CfFailure errs) \<Rightarrow>
              (failed (or_default (joinedErrors errs) ''Unknown error''), h1)
          | AxiosThrows e \<Rightarrow>
              (failed (or_default (joinedErrors (map_option (map snd) (response_errors e)))
                         (error_message e)), h1)))"

fun deleteDNSRecords :: "env \<Rightarrow> string \<Rightarrow> string list \<Rightarrow> history \<Rightarrow> history" where
  "deleteDNSRecords env zoneId [] h = h"
| "deleteDNSRecords env zoneId (rid # rest) h =
     deleteDNSRecords env zoneId rest (snd (deleteDNSRecord env zoneId rid h))"

definition getZoneStatus ::
  "env \<Rightarrow> string \<Rightarrow> history \<Rightarrow> (string \<times> string list) option \<times> history" where
  "getZoneStatus env zoneId h =
     (let h1 = h @ [Http (GetZone zoneId)]
      in (case getZone env h1 of
            AxiosResponse (CfSuccess r) \<Rightarrow>
              (Some (fst r, (case snd r of None \<Rightarrow> [] | Some ns \<Rightarrow> ns)), h1)
          | AxiosResponse (CfFailure errs) \<Rightarrow> (None, h1)
          | AxiosThrows e \<Rightarrow> (None, h1)))"

function waitForZoneActivation_loop ::
  "env \<Rightarrow> string \<Rightarrow> int \<Rightarrow> int \<Rightarrow> int \<Rightarrow> history \<Rightarrow> bool \<times> history" where
  "waitForZoneActivation_loop env zoneId maxAtt intervalMs attempt h =
     (if attempt \<le> maxAtt then
        (case getZoneStatus env zoneId h of (st, h1) \<Rightarrow>
           if map_option fst st = Some ''active'' then (True, h1)
           else waitForZoneActivation_loop env zoneId maxAtt intervalMs (attempt + 1)
                  (if attempt < maxAtt then delay intervalMs h1 else h1))
      else (False, h))"
  by pat_completeness auto
termination
  by (relation "measure (\<lambda>(env, zoneId, maxAtt, intervalMs, attempt, h).
        nat (maxAtt + 1 - attempt))") auto

definition waitForZoneActivation :: "env \<Rightarrow> string \<Rightarrow> int \<Rightarrow> int \<Rightarrow> history \<Rightarrow> bool \<times> history" where
  "waitForZoneActivation env zoneId maxAtt intervalMs h =
     waitForZoneActivation_loop env zoneId maxAtt intervalMs 1 h"

section \<open>Hosting platform adapter (module vercel, in utils.ts)\<close>

definition getDomainStatus :: "env \<Rightarrow> string \<Rightarrow> history \<Rightarrow> AddDomainResult \<times> history" where
  "getDomainStatus env d h =
     (let h1 = h @ [Http (GetDomain d)]
      in (case getDomain env h1 of
            AxiosResponse domainData \<Rightarrow>
              if \<not> VercelDomain.verified domainData \<and> verification domainData \<noteq> None
              then (\<lparr>AddDomainResult.success = True, AddDomainResult.domain = Some domainData,
                     AddDomainResult.errorMessage = None, verificationRequired = Some True,
                     verificationRecords = Some (map (\<lambda>v.
                       \<lparr>VerificationRecord.type = VercelVerification.type v,
                        VerificationRecord.name = VercelVerification.domain v,
                        VerificationRecord.val = VercelVerification.val v\<rparr>)
                       (the (verification domainData)))\<rparr>, h1)
              else (\<lparr>AddDomainResult.success = True,
                     AddDomainResult.domain = Some (domainData\<lparr>verification := None\<rparr>),
                     AddDomainResult.errorMessage = None, verificationRequired = None,
                     verificationRecords = None\<rparr>, h1)
          | AxiosThrows e \<Rightarrow>
              (\<lparr>AddDomainResult.success = False, AddDomainResult.domain = None,
                AddDomainResult.errorMessage =
                  Some (or_default (response_error_message e) (error_message e)),
                verificationRequired = None, verificationRecords = None\<rparr>, h1)))"

definition addDomain :: "env \<Rightarrow> string \<Rightarrow> history \<Rightarrow> AddDomainResult \<times> history" where
  "addDomain env d h =
     (let h1 = h @ [Http (PostDomain d)]
      in (case postDomain env h1 of
            AxiosResponse domainData \<Rightarrow>
              if \<not> VercelDomain.verified domainData \<and> verification domainData \<noteq> None
              then (\<lparr>AddDomainResult.success = True, AddDomainResult.domain = Some domainData,
                     AddDomainResult.errorMessage = None, verificationRequired = Some True,
                     verificationRecords = Some (map (\<lambda>v.
                       \<lparr>VerificationRecord.type = VercelVerification.type v,
                        VerificationRecord.name = VercelVerification.domain v,
                        VerificationRecord.val = VercelVerification.val v\<rparr>)
                       (the (verification domainData)))\<rparr>, h1)
              else (\<lparr>AddDomainResult.success = True,
                     AddDomainResult.domain = Some (domainData\<lparr>verification := None\<rparr>),
                     AddDomainResult.errorMessage = None, verificationRequired = None,
                     verificationRecords = None\<rparr>, h1)
          | AxiosThrows e \<Rightarrow>
              if response_status e = Some 409 then getDomainStatus env d h1
              else (\<lparr>AddDomainResult.success = False, AddDomainResult.domain = None,
                     AddDomainResult.errorMessage =
                       Some (or_default (response_error_message e) (error_message e)),
                     verificationRequired = None, verificationRecords = None\<rparr>, h1)))"

text \<open>The answer of the hosting platform to a verify request is \<open>data.verified === true\<close>.\<close>

definition verifyDomain :: "env \<Rightarrow> string \<Rightarrow> history \<Rightarrow> VerifyDomainResult \<times> history" where
  "verifyDomain env d h =
     (let h1 = h @ [Http (PostVerify d)]
      in (case postVerify env h1 of
            AxiosResponse v \<Rightarrow>
              (\<lparr>VerifyDomainResult.success = True, VerifyDomainResult.verified = v,
                VerifyDomainResult.errorMessage = None\<rparr>, h1)
          | AxiosThrows e \<Rightarrow>
              (\<lparr>VerifyDomainResult.success = False, VerifyDomainResult.verified = False,
                VerifyDomainResult.errorMessage =
                  Some (or_default (response_error_message e) (error_message e))\<rparr>, h1)))"

function waitForDomainVerification_loop ::
  "env \<Rightarrow> string \<Rightarrow> int \<Rightarrow> int \<Rightarrow> int \<Rightarrow> history \<Rightarrow> bool \<times> history" where
  "waitForDomainVerification_loop env d maxAtt intervalMs attempt h =
     (if attempt \<le> maxAtt then
        (case verifyDomain env d h of (result, h1) \<Rightarrow>
           if VerifyDomainResult.verified result then (True, h1)
           else waitForDomainVerification_loop env d maxAtt intervalMs (attempt + 1)
                  (if attempt < maxAtt then delay intervalMs h1 else h1))
      else (False, h))"
  by pat_completeness auto
termination
  by (relation "measure (\<lambda>(env, d, maxAtt, intervalMs, attempt, h).
        nat (maxAtt + 1 - attempt))") auto

definition waitForDomainVerification ::
  "env \<Rightarrow> string \<Rightarrow> int \<Rightarrow> int \<Rightarrow> history \<Rightarrow> bool \<times> history" where
  "waitForDomainVerification env d maxAtt intervalMs h =
     waitForDomainVerification_loop env d maxAtt intervalMs 1 h"

definition removeDomain :: "env \<Rightarrow> string \<Rightarrow> history \<Rightarrow> RemoveDomainResult \<times> history" where
  "removeDomain env d h =
     (let h1 = h @ [Http (DeleteDomain d)]
      in (case deleteDomain env h1 of
            AxiosResponse u \<Rightarrow>
              (\<lparr>RemoveDomainResult.success = True, RemoveDomainResult.errorMessage = None\<rparr>, h1)
          | AxiosThrows e \<Rightarrow>
              (\<lparr>RemoveDomainResult.success = False,
                RemoveDomainResult.errorMessage =
                  Some (or_default (response_error_message e) (error_message e))\<rparr>, h1)))"

text \<open>The records are \<open>(type, name, content)\<close>.\<close>

definition getVercelDNSRecords :: "string \<Rightarrow> (record_type \<times> string \<times> string) list" where
  "getVercelDNSRecords d = [(A, ''@'', ''76.76.21.21''), (CNAME, ''www'', ''cname.vercel-dns.com'')]"

section \<open>The workflow (module index, in namecheap.ts)\<close>

record WorkflowState =
  domain :: string
  years :: int
  enableWhoisGuard :: bool
  domainPurchased :: bool
  cloudflareZoneId :: "string option"
  cloudflareRecordIds :: "string list"
  vercelDomainAdded :: bool

record Steps =
  availabilityCheck :: bool
  domainPurchase :: bool
  cloudflareZone :: bool
  nameserversSet :: bool
  dnsRecords :: bool
  vercelDomain :: bool
  vercelVerified :: bool

record Details =
  domainId :: "string option"
  transactionId :: "string option"
  cloudflareZoneId :: "string option"
  cloudflareNameservers :: "string list option"
  dnsRecordIds :: "string list option"

record WorkflowResult =
  success :: bool
  steps :: Steps
  details :: Details
  errors :: "string list"

text \<open>The line of 63 box-drawing characters (U+2550) that frames a heading, in UTF-8.\<close>

definition banner :: string where
  "banner = concat (replicate 63 [CHR 0xE2, CHR 0x95, CHR 0x90])"

text \<open>The warning sign (U+26A0, U+FE0F) in UTF-8.\<close>

definition warningSign :: string where
  "warningSign = [CHR 0xE2, CHR 0x9A, CHR 0xA0, CHR 0xEF, CHR 0xB8, CHR 0x8F]"

definition refundNotice :: "string \<Rightarrow> string" where
  "refundNotice d = warningSign @ ''  Domain '' @ d @
     '' was purchased and CANNOT be automatically refunded. '' @
     ''Please contact Namecheap support if needed.''"

text \<open>
  \<open>rollback\<close>. Neither \<open>removeDomain\<close> nor \<open>deleteDNSRecords\<close> can throw, so the two
  \<open>catch\<close> blocks are never entered.
\<close>

definition rollback :: "env \<Rightarrow> WorkflowState \<Rightarrow> history \<Rightarrow> history" where
  "rollback env state h =
     (let h1 = h @ [Log LogWarn banner, Log LogWarn ''INITIATING ROLLBACK...'', Log LogWarn banner];
          h2 = (if vercelDomainAdded state
                then snd (removeDomain env (WorkflowState.domain state) h1) @
                     [Log LogInfo ''Removed domain from Vercel'']
                else h1);
          h3 = (if truthy (WorkflowState.cloudflareZoneId state) \<and>
                   length (cloudflareRecordIds state) > 0
                then deleteDNSRecords env (the (WorkflowState.cloudflareZoneId state))
                       (cloudflareRecordIds state) h2 @
                     [Log LogInfo ''Deleted DNS records from Cloudflare'']
                else h2);
          h4 = (if domainPurchased state
                then h3 @ [Log LogWarn (refundNotice (WorkflowState.domain state))]
                else h3)
      in h4 @ [Log LogInfo ''Rollback completed''])"

text \<open>
  The body of the \<open>try\<close> block either returns or throws; what was thrown is \<open>None\<close> when it
  is \<open>undefined\<close>. Both ways leave the objects \<open>state\<close> and \<open>result\<close> as they are at that
  moment. The body is cut after each step: \<open>stepN\<close> is the body from the heading of step N
  to its end.
\<close>

datatype completion = Return | Throw "error option"

type_synonym run = "completion \<times> WorkflowState \<times> WorkflowResult \<times> history"

definition pushError :: "string \<Rightarrow> WorkflowResult \<Rightarrow> WorkflowResult" where
  "pushError m result = result\<lparr>errors := WorkflowResult.errors result @ [m]\<rparr>"

definition allSteps :: "Steps \<Rightarrow> bool" where
  "allSteps st = (availabilityCheck st \<and> domainPurchase st \<and> cloudflareZone st \<and>
     nameserversSet st \<and> dnsRecords st \<and> vercelDomain st \<and> vercelVerified st)"

definition step7 :: "env \<Rightarrow> string \<Rightarrow> WorkflowState \<Rightarrow> WorkflowResult \<Rightarrow> history \<Rightarrow> run" where
  "step7 env d state result h =
     (case waitForDomainVerification env d 10 30000 h of (verified', h1) \<Rightarrow>
        (let result1 =
               (if \<not> verified'
                then pushError
                  ''Vercel Verification: Failed after 10 attempts - requires manual review'' result
                else result\<lparr>steps := (steps result)\<lparr>vercelVerified := True\<rparr>\<rparr>);
             result2 = result1\<lparr>WorkflowResult.success := allSteps (steps result1)\<rparr>
         in (Return, state, result2, h1)))"

text \<open>The loop of step 6 over the verification records, with the array it pushes to.\<close>

fun createVerificationRecords ::
  "env \<Rightarrow> string \<Rightarrow> VerificationRecord list \<Rightarrow> string list \<Rightarrow> history \<Rightarrow>
   string list \<times> history" where
  "createVerificationRecords env zoneId [] ids h = (ids, h)"
| "createVerificationRecords env zoneId (record # rest) ids h =
     (if VerificationRecord.type record = ''TXT'' then
        (case createDNSRecord env zoneId
                \<lparr>DNSRecord.type = TXT, DNSRecord.name = VerificationRecord.name record,
                 content = VerificationRecord.val record,
                 ttl = None, proxied = None, priority = None\<rparr> h of
           (txtResult, h1) \<Rightarrow>
             if CreateDNSRecordResult.success txtResult \<and> truthy (recordId txtResult)
             then createVerificationRecords env zoneId rest (ids @ [the (recordId txtResult)]) h1
             else createVerificationRecords env zoneId rest ids h1)
      else createVerificationRecords env zoneId rest ids h)"

text \<open>
  Step 5 stores one array in \<open>state.cloudflareRecordIds\<close> and in
  \<open>result.details.dnsRecordIds\<close>, so what step 6 pushes to the first shows in the second.
\<close>

definition step6 ::
  "env \<Rightarrow> string \<Rightarrow> CloudflareZone \<Rightarrow> WorkflowState \<Rightarrow> WorkflowResult \<Rightarrow> history \<Rightarrow> run" where
  "step6 env d zone' state result h =
     (case validateConfig (config env) Vercel of
        Inl e \<Rightarrow> (Throw (Some e), state, result, h)
      | Inr u \<Rightarrow>
         (case addDomain env d h of (vercelAddResult, h1) \<Rightarrow>
            if \<not> AddDomainResult.success vercelAddResult
            then (Return, state,
                  pushError (''Vercel Add: '' @
                    interpolate (AddDomainResult.errorMessage vercelAddResult)) result,
                  rollback env state h1)
            else
              (let state1 = state\<lparr>vercelDomainAdded := True\<rparr>;
                   result1 = result\<lparr>steps := (steps result)\<lparr>vercelDomain := True\<rparr>\<rparr>
               in if verificationRequired vercelAddResult = Some True \<and>
                     verificationRecords vercelAddResult \<noteq> None
                  then
                    (case createVerificationRecords env (zid zone')
                            (the (verificationRecords vercelAddResult))
                            (cloudflareRecordIds state1) h1 of
                       (ids, h2) \<Rightarrow>
                         step7 env d (state1\<lparr>cloudflareRecordIds := ids\<rparr>)
                           (result1\<lparr>details := (details result1)\<lparr>dnsRecordIds := Some ids\<rparr>\<rparr>) h2)
                  else step7 env d state1 result1 h1)))"

definition step5 ::
  "env \<Rightarrow> string \<Rightarrow> CloudflareZone \<Rightarrow> WorkflowState \<Rightarrow> WorkflowResult \<Rightarrow> history \<Rightarrow> run" where
  "step5 env d zone' state result h =
     (let vercelRecords = getVercelDNSRecords d
      in (case createDNSRecords env (zid zone')
                 (map (\<lambda>(t, n, c). \<lparr>DNSRecord.type = t,
                                      DNSRecord.name = (if n = ''@'' then d else n),
                                      content = c, ttl = None, proxied = Some False,
                                      priority = None\<rparr>) vercelRecords) h of
            (dnsResult, h1) \<Rightarrow>
              (let state1 = state\<lparr>cloudflareRecordIds := recordIds dnsResult\<rparr>;
                   result1 = result\<lparr>details :=
                               (details result)\<lparr>dnsRecordIds := Some (recordIds dnsResult)\<rparr>\<rparr>;
                   result2 = (if \<not> CreateDNSRecordsResult.success dnsResult
                              then result1\<lparr>errors := WorkflowResult.errors result1 @
                                                       CreateDNSRecordsResult.errors dnsResult\<rparr>
                              else result1);
                   result3 = result2\<lparr>steps := (steps result2)\<lparr>dnsRecords :=
                               CreateDNSRecordsResult.success dnsResult\<rparr>\<rparr>
               in step6 env d zone' state1 result3 h1)))"

text \<open>
  Step 4. The \<open>onRetry\<close> callback only writes to the logger, so it leaves the history as
  it is.
\<close>

definition step4 ::
  "env \<Rightarrow> string \<Rightarrow> CloudflareZone \<Rightarrow> WorkflowState \<Rightarrow> WorkflowResult \<Rightarrow> history \<Rightarrow> run" where
  "step4 env d zone' state result h =
     (case retry (setNameservers env d (nameServers zone'))
             \<lparr>maxAttempts = Some 3, initialDelayMs = Some 5000, maxDelayMs = None,
              onRetry = Some (\<lambda>attempt error h'. h')\<rparr> h of
        (Inl thrown, h1) \<Rightarrow> (Throw thrown, state, result, h1)
      | (Inr nsResult, h1) \<Rightarrow>
          if \<not> SetNameserversResult.success nsResult
          then (Return, state,
                pushError (''Nameservers: '' @
                  interpolate (SetNameserversResult.errorMessage nsResult)) result,
                rollback env state h1)
          else step5 env d zone' state
                 (result\<lparr>steps := (steps result)\<lparr>nameserversSet := True\<rparr>\<rparr>) h1)"

definition step3 :: "env \<Rightarrow> string \<Rightarrow> WorkflowState \<Rightarrow> WorkflowResult \<Rightarrow> history \<Rightarrow> run" where
  "step3 env d state result h =
     (case validateConfig (config env) Cloudflare of
        Inl e \<Rightarrow> (Throw (Some e), state, result, h)
      | Inr u \<Rightarrow>
         (case createZone env d h of (zoneResult, h1) \<Rightarrow>
            if \<not> CreateZoneResult.success zoneResult \<or> zone zoneResult = None
            then (Return, state,
                  pushError (''Cloudflare Zone: '' @
                    interpolate (CreateZoneResult.errorMessage zoneResult)) result,
                  rollback env state h1)
            else
              (let z = the (zone zoneResult);
                   state1 = state\<lparr>WorkflowState.cloudflareZoneId := Some (zid z)\<rparr>;
                   result1 = result\<lparr>steps := (steps result)\<lparr>cloudflareZone := True\<rparr>,
                               details := (details result)\<lparr>
                                 Details.cloudflareZoneId := Some (zid z),
                                 cloudflareNameservers := Some (nameServers z)\<rparr>\<rparr>
               in step4 env d z state1 result1 h1)))"

definition step2 ::
  "env \<Rightarrow> string \<Rightarrow> int \<Rightarrow> bool \<Rightarrow> WorkflowState \<Rightarrow> WorkflowResult \<Rightarrow> history \<Rightarrow> run" where
  "step2 env d years' enableWhoisGuard' state result h =
     (case validateConfig (config env) Registrant of
        Inl e \<Rightarrow> (Throw (Some e), state, result, h)
      | Inr u \<Rightarrow>
         (case purchaseDomain env d years' enableWhoisGuard' h of
            (Inl e, h1) \<Rightarrow> (Throw (Some e), state, result, h1)
          | (Inr purchaseResult, h1) \<Rightarrow>
              if \<not> PurchaseResult.success purchaseResult
              then (Return, state,
                    pushError (''Purchase: '' @
                      interpolate (PurchaseResult.errorMessage purchaseResult)) result, h1)
              else
                (let state1 = state\<lparr>domainPurchased := True\<rparr>;
                     result1 = result\<lparr>steps := (steps result)\<lparr>domainPurchase := True\<rparr>,
                                 details := (details result)\<lparr>
                                   Details.domainId := PurchaseResult.domainId purchaseResult,
                                   Details.transactionId :=
                                     PurchaseResult.transactionId purchaseResult\<rparr>\<rparr>
                 in step3 env d state1 result1 h1)))"

definition step1 ::
  "env \<Rightarrow> string \<Rightarrow> int \<Rightarrow> bool \<Rightarrow> WorkflowState \<Rightarrow> WorkflowResult \<Rightarrow> history \<Rightarrow> run" where
  "step1 env d years' enableWhoisGuard' state result h =
     (case validateConfig (config env) Namecheap of
        Inl e \<Rightarrow> (Throw (Some e), state, result, h)
      | Inr u \<Rightarrow>
         (case checkAvailability env d h of (availabilityResult, h1) \<Rightarrow>
            if \<not> available availabilityResult
            then (Return, state,
                  pushError (''Availability: '' @
                    or_default (AvailabilityResult.errorMessage availabilityResult)
                      ''Domain is not available'') result, h1)
            else step2 env d years' enableWhoisGuard' state
                   (result\<lparr>steps := (steps result)\<lparr>availabilityCheck := True\<rparr>\<rparr>) h1))"

definition initialState :: "string \<Rightarrow> int \<Rightarrow> bool \<Rightarrow> WorkflowState" where
  "initialState d years' enableWhoisGuard' =
     \<lparr>WorkflowState.domain = d, years = years', enableWhoisGuard = enableWhoisGuard',
      domainPurchased = False, WorkflowState.cloudflareZoneId = None,
      cloudflareRecordIds = [], vercelDomainAdded = False\<rparr>"

definition initialResult :: WorkflowResult where
  "initialResult =
     \<lparr>WorkflowResult.success = False,
      steps = \<lparr>availabilityCheck = False, domainPurchase = False, cloudflareZone = False,
               nameserversSet = False, dnsRecords = False, vercelDomain = False,
               vercelVerified = False\<rparr>,
      details = \<lparr>Details.domainId = None, Details.transactionId = None,
                 Details.cloudflareZoneId = None, cloudflareNameservers = None,
                 dnsRecordIds = None\<rparr>,
      errors = []\<rparr>"

text \<open>
  \<open>runWorkflow\<close>. The \<open>catch\<close> block reads \<open>error.message\<close> first; were \<open>undefined\<close> thrown,
  this read would throw a \<open>TypeError\<close> out of the function (\<open>Inl\<close>). The final state is
  returned beside the result, for the theorems that speak about it.
\<close>

definition runWorkflow_state ::
  "env \<Rightarrow> string \<Rightarrow> int \<Rightarrow> bool \<Rightarrow> history \<Rightarrow>
   (error + WorkflowResult) \<times> WorkflowState \<times> history" where
  "runWorkflow_state env d years' enableWhoisGuard' h =
     (case step1 env d years' enableWhoisGuard' (initialState d years' enableWhoisGuard')
             initialResult h of
        (Return, state, result, h1) \<Rightarrow> (Inr result, state, h1)
      | (Throw None, state, result, h1) \<Rightarrow>
          (Inl (TypeError ''Cannot read properties of undefined (reading 'message')''), state, h1)
      | (Throw (Some error), state, result, h1) \<Rightarrow>
          (Inr (pushError (''Unexpected: '' @ message error) result), state,
           rollback env state h1))"

definition runWorkflow ::
  "env \<Rightarrow> string \<Rightarrow> int \<Rightarrow> bool \<Rightarrow> history \<Rightarrow> (error + WorkflowResult) \<times> history" where
  "runWorkflow env d years' enableWhoisGuard' h =
     (case runWorkflow_state env d years' enableWhoisGuard' h of
        (outcome, state, h1) \<Rightarrow> (outcome, h1))"

section \<open>Notions used in the statements\<close>

subsection \<open>The result of the workflow\<close>

text \<open>
  The invariant of a result: \<open>success\<close> says that all seven steps are done, a step that is
  not done comes with an error, and a successful result has no error.
\<close>

definition consistent :: "WorkflowResult \<Rightarrow> bool" where
  "consistent r =
     ((WorkflowResult.success r \<longleftrightarrow> allSteps (steps r)) \<and>
      (\<not> allSteps (steps r) \<longrightarrow> WorkflowResult.errors r \<noteq> []) \<and>
      (WorkflowResult.success r \<longrightarrow> WorkflowResult.errors r = []))"

text \<open>
  How the body of the \<open>try\<close> block may end: it returns a consistent result, or it throws
  an error while the result is neither successful nor verified.
\<close>

fun wellEnded :: "run \<Rightarrow> bool" where
  "wellEnded (Return, state, result, h) = consistent result"
| "wellEnded (Throw None, state, result, h) = False"
| "wellEnded (Throw (Some e), state, result, h) =
     (\<not> WorkflowResult.success result \<and> \<not> vercelVerified (steps result))"

definition verificationFailure :: string where
  "verificationFailure = ''Vercel Verification: Failed after 10 attempts - requires manual review''"

text \<open>The three lines that \<open>rollback\<close> logs first.\<close>

definition rollbackHeading :: "event list" where
  "rollbackHeading = [Log LogWarn banner, Log LogWarn ''INITIATING ROLLBACK...'', Log LogWarn banner]"

text \<open>A reply to the request for a new zone that is a failure and no conflict.\<close>

definition nonConflictFailure :: "zone_json cf_body axios_reply \<Rightarrow> bool" where
  "nonConflictFailure reply =
     (case reply of
        AxiosResponse (CfSuccess z) \<Rightarrow> False
      | AxiosResponse (CfFailure errs) \<Rightarrow> True
      | AxiosThrows e \<Rightarrow> \<not> conflict e)"

subsection \<open>Batches of records\<close>

text \<open>The test of \<open>createDNSRecords\<close> and of step 6 for a record that was created.\<close>

definition created :: "CreateDNSRecordResult \<Rightarrow> bool" where
  "created res = (CreateDNSRecordResult.success res \<and> truthy (recordId res))"

definition failureLine :: "DNSRecord \<Rightarrow> CreateDNSRecordResult \<Rightarrow> string" where
  "failureLine r res =
     typeName (DNSRecord.type r) @ '' '' @ DNSRecord.name r @ '': '' @
     interpolate (CreateDNSRecordResult.errorMessage res)"

text \<open>
  The records created one after the other in the order of the list, each on the history
  that the one before left: every record with the result of its creation.
\<close>

fun createInOrder ::
  "env \<Rightarrow> string \<Rightarrow> DNSRecord list \<Rightarrow> history \<Rightarrow>
   (DNSRecord \<times> CreateDNSRecordResult) list \<times> history" where
  "createInOrder env zoneId [] h = ([], h)"
| "createInOrder env zoneId (r # rest) h =
     (case createDNSRecord env zoneId r h of (res, h1) \<Rightarrow>
        (case createInOrder env zoneId rest h1 of (xs, h2) \<Rightarrow> ((r, res) # xs, h2)))"

definition createdIds :: "('a \<times> CreateDNSRecordResult) list \<Rightarrow> string list" where
  "createdIds xs = map (\<lambda>x. the (recordId (snd x))) (filter (\<lambda>x. created (snd x)) xs)"

text \<open>
  What a batch reports: the ids of the records created, in order, a line for each record
  that failed, and success when none failed.
\<close>

definition batchResult :: "(DNSRecord \<times> CreateDNSRecordResult) list \<Rightarrow> CreateDNSRecordsResult" where
  "batchResult xs =
     \<lparr>CreateDNSRecordsResult.success = list_all (\<lambda>x. created (snd x)) xs,
      recordIds = createdIds xs,
      errors = map (\<lambda>x. failureLine (fst x) (snd x)) (filter (\<lambda>x. \<not> created (snd x)) xs)\<rparr>"

definition txtRecord :: "VerificationRecord \<Rightarrow> DNSRecord" where
  "txtRecord v = \<lparr>DNSRecord.type = TXT, DNSRecord.name = VerificationRecord.name v,
     content = VerificationRecord.val v, ttl = None, proxied = None, priority = None\<rparr>"

text \<open>
  The verification records of type TXT created one after the other in the order of the
  list, the other records left out: every such record with the result of its creation.
\<close>

fun txtCreations ::
  "env \<Rightarrow> string \<Rightarrow> VerificationRecord list \<Rightarrow> history \<Rightarrow>
   (VerificationRecord \<times> CreateDNSRecordResult) list \<times> history" where
  "txtCreations env zoneId [] h = ([], h)"
| "txtCreations env zoneId (v # rest) h =
     (if VerificationRecord.type v = ''TXT'' then
        (case createDNSRecord env zoneId (txtRecord v) h of (res, h1) \<Rightarrow>
           (case txtCreations env zoneId rest h1 of (xs, h2) \<Rightarrow> ((v, res) # xs, h2)))
      else txtCreations env zoneId rest h)"

subsection \<open>Histories\<close>

text \<open>The requests that go to the registrar, and the one that delegates the nameservers.\<close>

fun registrarCall :: "api_call \<Rightarrow> bool" where
  "registrarCall (DomainsCheck d) = True"
| "registrarCall AddressGetList = True"
| "registrarCall (AddressGetInfo a) = True"
| "registrarCall (DomainsCreate d y w c) = True"
| "registrarCall (DnsSetCustom sld tld ns) = True"
| "registrarCall c = False"

fun noRegistrar :: "event \<Rightarrow> bool" where
  "noRegistrar (Http c) = (\<not> registrarCall c)"
| "noRegistrar e = True"

fun delegationOnly :: "event \<Rightarrow> bool" where
  "delegationOnly (Http (DnsSetCustom sld tld ns)) = True"
| "delegationOnly (Http c) = (\<not> registrarCall c)"
| "delegationOnly e = True"

fun isPurchase :: "event \<Rightarrow> bool" where
  "isPurchase (Http (DomainsCreate d y w c)) = True"
| "isPurchase e = False"

text \<open>The events that follow the first purchase request.\<close>

definition afterPurchase :: "event list \<Rightarrow> event list" where
  "afterPurchase evs = drop 1 (dropWhile (\<lambda>e. \<not> isPurchase e) evs)"

text \<open>From \<open>h\<close> to \<open>h1\<close> only events that satisfy \<open>P\<close> were added.\<close>

definition appends :: "(event \<Rightarrow> bool) \<Rightarrow> history \<Rightarrow> history \<Rightarrow> bool" where
  "appends P h h1 = (\<exists>evs. h1 = h @ evs \<and> list_all P evs)"

text \<open>
  From \<open>h\<close> to \<open>h1\<close>, the only requests to the registrar that follow a purchase request
  delegate the nameservers.
\<close>

definition purchaseThenDelegation :: "history \<Rightarrow> history \<Rightarrow> bool" where
  "purchaseThenDelegation h h1 =
     (\<exists>evs. h1 = h @ evs \<and> list_all delegationOnly (afterPurchase evs))"

text \<open>\<open>k\<close> times the request \<open>c\<close>, with a delay of \<open>ms\<close> between one and the next.\<close>

fun checks :: "api_call \<Rightarrow> int \<Rightarrow> nat \<Rightarrow> event list" where
  "checks c ms 0 = []"
| "checks c ms (Suc 0) = [Http c]"
| "checks c ms (Suc (Suc k)) = checks c ms (Suc k) @ [Sleep ms, Http c]"

text \<open>The zone is active in the reply to a status request.\<close>

definition active :: "(string \<times> string list option) cf_body axios_reply \<Rightarrow> bool" where
  "active reply =
     (case reply of AxiosResponse (CfSuccess r) \<Rightarrow> fst r = ''active'' | _ \<Rightarrow> False)"

text \<open>
  The order of the polling loop as the specification words it: a delay stands right
  before every request.
\<close>

fun delayBeforeEachCheck :: "event list \<Rightarrow> bool" where
  "delayBeforeEachCheck [] = True"
| "delayBeforeEachCheck (Sleep ms # Http c # evs) = delayBeforeEachCheck evs"
| "delayBeforeEachCheck evs = False"

section \<open>Example environments\<close>

fun delegationEvent :: "event \<Rightarrow> bool" where
  "delegationEvent (Http (DnsSetCustom sld tld ns)) = True"
| "delegationEvent e = False"

fun verifyEvent :: "event \<Rightarrow> bool" where
  "verifyEvent (Http (PostVerify d)) = True"
| "verifyEvent e = False"

definition xmlNode :: "(string \<times> string) list \<Rightarrow> xml_node" where
  "xmlNode attrs = \<lparr>attr = map_of attrs, child = (\<lambda>n. None)\<rparr>"

definition exampleConfig :: config where
  "exampleConfig = \<lparr>setting = (\<lambda>s f. ''set''), useDefaultContacts = False\<rparr>"

definition serverError :: axios_error where
  "serverError = \<lparr>response_status = Some 500, response_errors = None,
     response_error_message = None, error_message = ''Request failed with status code 500''\<rparr>"

text \<open>
  Every provider answers well: the domain is free and gets registered, the zone \<open>Z1\<close> is
  created, the nameservers are set, every record is created (its id is \<open>R-\<close> and its
  name) unless its name is \<open>bad\<close>, and the hosting platform takes the domain and finds it
  verified.
\<close>

definition exampleEnv :: env where
  "exampleEnv =
     \<lparr>config = exampleConfig,
      domainsCheck = (\<lambda>h. NcCommandResponse
        (Some (xmlNode [(''Available'', ''true''), (''IsPremiumName'', ''false'')]))),
      addressGetList = (\<lambda>h. NcCommandResponse []),
      addressGetInfo = (\<lambda>h. NcCommandResponse None),
      domainsCreate = (\<lambda>h. NcCommandResponse
        (Some (xmlNode [(''Registered'', ''true''), (''DomainID'', ''D1''),
                        (''TransactionID'', ''T1'')]))),
      dnsSetCustom = (\<lambda>h. NcCommandResponse (Some (xmlNode [(''Update'', ''true'')]))),
      postZone = (\<lambda>h. AxiosResponse (CfSuccess
        \<lparr>json_id = ''Z1'', json_name = ''example-test.com'', json_status = ''pending'',
         name_servers = Some [''ns1.x'', ''ns2.x'']\<rparr>)),
      getZones = (\<lambda>h. AxiosResponse (CfSuccess [])),
      postRecord = (\<lambda>h. case last h of
          Http (PostRecord z r) \<Rightarrow>
            if DNSRecord.name r = ''bad''
            then AxiosResponse (CfFailure (Some [''Record already exists.'']))
            else AxiosResponse (CfSuccess (''R-'' @ DNSRecord.name r))
        | _ \<Rightarrow> AxiosThrows serverError),
      deleteRecord = (\<lambda>h. AxiosResponse (CfSuccess ())),
      getZone = (\<lambda>h. AxiosResponse (CfSuccess (''active'', None))),
      postDomain = (\<lambda>h. AxiosResponse
        \<lparr>VercelDomain.name = ''example-test.com'', VercelDomain.verified = True,
         verification = None\<rparr>),
      getDomain = (\<lambda>h. AxiosResponse
        \<lparr>VercelDomain.name = ''example-test.com'', VercelDomain.verified = True,
         verification = None\<rparr>),
      postVerify = (\<lambda>h. AxiosResponse True),
      deleteDomain = (\<lambda>h. AxiosResponse ())\<rparr>"

text \<open>The request for a new zone fails with a server error.\<close>

definition zoneErrorEnv :: env where
  "zoneErrorEnv = exampleEnv\<lparr>postZone := (\<lambda>h. AxiosThrows serverError)\<rparr>"

text \<open>
  The first request to set the nameservers dies on the network; a second one would be
  answered well.
\<close>

definition flakyRegistrarEnv :: env where
  "flakyRegistrarEnv = exampleEnv\<lparr>dnsSetCustom := (\<lambda>h.
     if length (filter delegationEvent h) < 2
     then NcThrows ''socket hang up''
     else NcCommandResponse (Some (xmlNode [(''Update'', ''true'')])))\<rparr>"

text \<open>
  The hosting platform takes the domain and asks for three verification records: a TXT
  record that can be created, a TXT record that cannot, and a record of another type.
\<close>

definition verificationEnv :: env where
  "verificationEnv = exampleEnv\<lparr>postDomain := (\<lambda>h. AxiosResponse
     \<lparr>VercelDomain.name = ''example-test.com'', VercelDomain.verified = False,
      verification = Some
        [\<lparr>VercelVerification.type = ''TXT'', VercelVerification.domain = ''_vercel'',
          VercelVerification.val = ''vc-domain-verify=1'', reason = ''pending''\<rparr>,
         \<lparr>VercelVerification.type = ''TXT'', VercelVerification.domain = ''bad'',
          VercelVerification.val = ''vc-domain-verify=2'', reason = ''pending''\<rparr>,
         \<lparr>VercelVerification.type = ''CNAME'', VercelVerification.domain = ''www'',
          VercelVerification.val = ''cname.vercel-dns.com'', reason = ''pending''\<rparr>]\<rparr>)\<rparr>"

text \<open>
  The first verify request fails, the second finds the domain not verified, the third
  finds it verified. The zone is pending at the first status request and active at the
  second.
\<close>

definition pollingEnv :: env where
  "pollingEnv = exampleEnv\<lparr>
     getZone := (\<lambda>h. AxiosResponse
       (CfSuccess (if length h < 2 then ''pending'' else ''active'', None))),
     postVerify := (\<lambda>h.
       if length (filter verifyEvent h) = 1 then AxiosThrows serverError
       else AxiosResponse (3 \<le> length (filter verifyEvent h)))\<rparr>"

text \<open>A state in which every kind of resource exists.\<close>

definition provisionedState :: WorkflowState where
  "provisionedState =
     \<lparr>WorkflowState.domain = ''example-test.com'', years = 1, enableWhoisGuard = True,
      domainPurchased = True, WorkflowState.cloudflareZoneId = Some ''Z1'',
      cloudflareRecordIds = [''R-www''], vercelDomainAdded = True\<rparr>"

text \<open>
  An operation for \<open>retry\<close>: it sends a request and then throws the number of events
  that had happened when it was called.
\<close>

definition alwaysFailing :: "history \<Rightarrow> (nat + unit) \<times> history" where
  "alwaysFailing h = (Inl (length h), h @ [Http (GetZone ''z'')])"

section \<open>Unfolding the definitions on examples\<close>

declare retry_loop.simps [simp del]
declare waitForZoneActivation_loop.simps [simp del]
declare waitForDomainVerification_loop.simps [simp del]

lemmas adapter_defs =
  checkAvailability_def purchaseDomain_def setNameservers_def splitDomain_def
  getDefaultAddress_def getAddressList_def getAddressInfo_def
  createZone_def fetchExistingZone_def createDNSRecord_def createDNSRecords_def
  deleteDNSRecord_def addDomain_def getDomainStatus_def verifyDomain_def removeDomain_def
  getVercelDNSRecords_def toZone_def conflict_def joinedErrors_def
  or_default_def interpolate_def truthy_def validateConfig_def

lemmas workflow_defs =
  runWorkflow_def runWorkflow_state_def step1_def step2_def step3_def step4_def step5_def
  step6_def step7_def initialState_def initialResult_def pushError_def allSteps_def
  rollback_def retry_def afterFailure_def delay_def waitForDomainVerification_def
  waitForZoneActivation_def getZoneStatus_def
  retry_loop.simps waitForDomainVerification_loop.simps waitForZoneActivation_loop.simps

lemmas example_defs =
  exampleEnv_def exampleConfig_def xmlNode_def serverError_def zoneErrorEnv_def
  flakyRegistrarEnv_def verificationEnv_def pollingEnv_def provisionedState_def

section \<open>Properties of retry\<close>

text \<open>
  C7. With \<open>maxAttempts = 3\<close> and an operation that fails whenever it is called, \<open>retry\<close>
  calls the operation three times: on the history it was given, then after the callback
  and delay that follow the first failure, then after those that follow the second.
  It throws what the third call threw, and its history is the one the third call left:
  nothing is called or awaited after it.
\<close>

theorem retry_three_failures:
  assumes always: "\<forall>h'. isl (fst (fn h'))"
    and three: "maxAttempts options = Some 3"
  shows "\<exists>e1 h1 e2 h2 e3 h3.
      fn h = (Inl e1, h1) \<and>
      fn (afterFailure (case initialDelayMs options of None \<Rightarrow> 1000 | Some n \<Rightarrow> n)
            (case maxDelayMs options of None \<Rightarrow> 30000 | Some n \<Rightarrow> n)
            (onRetry options) 1 e1 h1) = (Inl e2, h2) \<and>
      fn (afterFailure (case initialDelayMs options of None \<Rightarrow> 1000 | Some n \<Rightarrow> n)
            (case maxDelayMs options of None \<Rightarrow> 30000 | Some n \<Rightarrow> n)
            (onRetry options) 2 e2 h2) = (Inl e3, h3) \<and>
      retry fn options h = (Inl (Some e3), h3)"
proof -
  define i where "i = (case initialDelayMs options of None \<Rightarrow> 1000 | Some n \<Rightarrow> n)"
  define m where "m = (case maxDelayMs options of None \<Rightarrow> 30000 | Some n \<Rightarrow> n)"
  have fails: "\<exists>e h1. fn h' = (Inl e, h1)" for h'
    using always by (cases "fn h'") (auto simp: isl_def dest: spec [of _ h'])
  obtain e1 h1 where 1: "fn h = (Inl e1, h1)"
    using fails by blast
  obtain e2 h2 where 2: "fn (afterFailure i m (onRetry options) 1 e1 h1) = (Inl e2, h2)"
    using fails by blast
  obtain e3 h3 where 3: "fn (afterFailure i m (onRetry options) 2 e2 h2) = (Inl e3, h3)"
    using fails by blast
  have "retry fn options h = (Inl (Some e3), h3)"
    using 1 2 3 three by (simp add: retry_def retry_loop.simps i_def m_def)
  with 1 2 3 show ?thesis
    unfolding i_def m_def by blast
qed

theorem retry_three_failures_witness:
  "(\<forall>h'. isl (fst (alwaysFailing h'))) \<and>
   retry alwaysFailing
     \<lparr>maxAttempts = Some 3, initialDelayMs = None, maxDelayMs = None, onRetry = None\<rparr> [] =
   (Inl (Some 4),
    [Http (GetZone ''z''), Sleep 1000, Http (GetZone ''z''), Sleep 2000, Http (GetZone ''z'')])"
  using retry_three_failures [of alwaysFailing
      "\<lparr>maxAttempts = Some 3, initialDelayMs = None, maxDelayMs = None, onRetry = None\<rparr>" "[]"]
  by (auto simp: alwaysFailing_def afterFailure_def delay_def)

text \<open>
  C8. With \<open>maxAttempts\<close> zero or negative, \<open>retry\<close> throws at once: the operation is not
  called and nothing is awaited, so the history is the one it was given. What it throws
  is \<open>undefined\<close>, the initial value of \<open>lastError\<close>.
\<close>

theorem retry_nonpositive_maxAttempts:
  assumes "maxAttempts options = Some n" and "n \<le> 0"
  shows "retry fn options h = (Inl None, h)"
  using assms by (simp add: retry_def retry_loop.simps)

theorem retry_nonpositive_maxAttempts_witness:
  "maxAttempts \<lparr>maxAttempts = Some 0, initialDelayMs = None, maxDelayMs = None,
      onRetry = None\<rparr> = Some (0::int) \<and> (0::int) \<le> 0 \<and>
   retry alwaysFailing
     \<lparr>maxAttempts = Some 0, initialDelayMs = None, maxDelayMs = None, onRetry = None\<rparr>
     [Sleep 5] = (Inl None, [Sleep 5])"
  using retry_nonpositive_maxAttempts [of
      "\<lparr>maxAttempts = Some 0, initialDelayMs = None, maxDelayMs = None, onRetry = None\<rparr>" 0
      alwaysFailing "[Sleep 5]"]
  by simp

section \<open>The result of the workflow is consistent\<close>

lemma retry_loop_never_undefined:
  "attempt \<le> maxAtt \<Longrightarrow>
   fst (retry_loop fn maxAtt initialDelay maxDelay onR attempt lastError h) \<noteq> Inl None"
proof (induction fn maxAtt initialDelay maxDelay onR attempt lastError h rule: retry_loop.induct)
  case (1 fn maxAtt initialDelay maxDelay onR attempt lastError h)
  show ?case
  proof (cases "fn h")
    case (Pair r h1)
    show ?thesis
    proof (cases r)
      case (Inr v)
      with Pair 1(2) show ?thesis by (simp add: retry_loop.simps)
    next
      case (Inl e)
      show ?thesis
      proof (cases "attempt = maxAtt")
        case True
        with Inl Pair show ?thesis by (simp add: retry_loop.simps)
      next
        case False
        with 1(2) have "attempt + 1 \<le> maxAtt" by simp
        from 1(1) [OF 1(2) Pair [symmetric] Inl False this] Inl Pair False 1(2)
        show ?thesis by (simp add: retry_loop.simps [of fn maxAtt _ _ _ attempt])
      qed
    qed
  qed
qed

lemma step7_wellEnded:
  assumes "\<not> vercelVerified (steps result)"
    and "availabilityCheck (steps result)" "domainPurchase (steps result)"
    and "cloudflareZone (steps result)" "nameserversSet (steps result)"
    and "vercelDomain (steps result)"
    and "dnsRecords (steps result) \<longleftrightarrow> WorkflowResult.errors result = []"
  shows "wellEnded (step7 env d state result h)"
  using assms
  by (auto simp: step7_def Let_def pushError_def consistent_def allSteps_def split: prod.splits)

lemma step6_wellEnded:
  assumes "\<not> WorkflowResult.success result" "\<not> vercelVerified (steps result)"
    and "availabilityCheck (steps result)" "domainPurchase (steps result)"
    and "cloudflareZone (steps result)" "nameserversSet (steps result)"
    and "dnsRecords (steps result) \<longleftrightarrow> WorkflowResult.errors result = []"
  shows "wellEnded (step6 env d zone' state result h)"
proof (cases "validateConfig (config env) Vercel")
  case (Inl e)
  with assms show ?thesis by (simp add: step6_def)
next
  case (Inr u)
  obtain r h1 where add: "addDomain env d h = (r, h1)"
    by (cases "addDomain env d h")
  show ?thesis
  proof (cases "AddDomainResult.success r")
    case False
    with Inr add assms show ?thesis
      by (simp add: step6_def pushError_def consistent_def allSteps_def)
  next
    case True
    with Inr add show ?thesis
      apply (simp add: step6_def Let_def split: prod.splits)
      apply (intro conjI impI allI step7_wellEnded)
      using assms apply simp_all
      done
  qed
qed


lemma createDNSRecords_success:
  "createDNSRecords env zoneId records h = (r, h1) \<Longrightarrow>
   CreateDNSRecordsResult.success r \<longleftrightarrow> CreateDNSRecordsResult.errors r = []"
  by (auto simp: createDNSRecords_def split: prod.splits)

lemma step5_wellEnded:
  assumes "\<not> WorkflowResult.success result" "\<not> vercelVerified (steps result)"
    and "availabilityCheck (steps result)" "domainPurchase (steps result)"
    and "cloudflareZone (steps result)" "nameserversSet (steps result)"
    and "WorkflowResult.errors result = []"
  shows "wellEnded (step5 env d zone' state result h)"
proof -
  define records where "records = map (\<lambda>(t, n, c). \<lparr>DNSRecord.type = t,
      DNSRecord.name = (if n = ''@'' then d else n),
      content = c, ttl = None, proxied = Some False, priority = None\<rparr>) (getVercelDNSRecords d)"
  obtain r h1 where dns: "createDNSRecords env (zid zone') records h = (r, h1)"
    by (cases "createDNSRecords env (zid zone') records h")
  note ok = createDNSRecords_success [OF dns]
  have "step5 env d zone' state result h =
      step6 env d zone' (state\<lparr>cloudflareRecordIds := recordIds r\<rparr>)
        ((if \<not> CreateDNSRecordsResult.success r
          then result\<lparr>details := (details result)\<lparr>dnsRecordIds := Some (recordIds r)\<rparr>,
                 errors := WorkflowResult.errors result @ CreateDNSRecordsResult.errors r\<rparr>
          else result\<lparr>details := (details result)\<lparr>dnsRecordIds := Some (recordIds r)\<rparr>\<rparr>)
         \<lparr>steps := (steps result)\<lparr>dnsRecords := CreateDNSRecordsResult.success r\<rparr>\<rparr>) h1"
    using dns by (simp add: step5_def Let_def records_def)
  also have "wellEnded \<dots>"
    by (rule step6_wellEnded) (use assms ok in simp_all)
  finally show ?thesis .
qed

lemma step4_wellEnded:
  assumes "\<not> WorkflowResult.success result" "\<not> vercelVerified (steps result)"
    and "availabilityCheck (steps result)" "domainPurchase (steps result)"
    and "cloudflareZone (steps result)"
    and "WorkflowResult.errors result = []"
  shows "wellEnded (step4 env d zone' state result h)"
proof -
  define opts :: "error retry_options" where
    "opts = \<lparr>maxAttempts = Some 3, initialDelayMs = Some 5000, maxDelayMs = None,
              onRetry = Some (\<lambda>attempt error h'. h')\<rparr>"
  obtain out h1 where r: "retry (setNameservers env d (nameServers zone')) opts h = (out, h1)"
    by (cases "retry (setNameservers env d (nameServers zone')) opts h")
  have defined: "out \<noteq> Inl None"
    using retry_loop_never_undefined [of 1 3 "setNameservers env d (nameServers zone')"
        5000 30000 "Some (\<lambda>attempt error h'. h')" None h] r
    by (simp add: retry_def opts_def)
  show ?thesis
  proof (cases out)
    case (Inl thrown)
    with defined obtain e where "thrown = Some e" by (cases thrown) auto
    with Inl r assms show ?thesis
      by (simp add: step4_def opts_def)
  next
    case (Inr nsResult)
    show ?thesis
    proof (cases "SetNameserversResult.success nsResult")
      case False
      with Inr r assms show ?thesis
        by (simp add: step4_def opts_def pushError_def consistent_def allSteps_def)
    next
      case True
      with Inr r have "step4 env d zone' state result h =
          step5 env d zone' state (result\<lparr>steps := (steps result)\<lparr>nameserversSet := True\<rparr>\<rparr>) h1"
        by (simp add: step4_def opts_def)
      also have "wellEnded \<dots>"
        by (rule step5_wellEnded) (use assms in simp_all)
      finally show ?thesis .
    qed
  qed
qed

lemma step3_wellEnded:
  assumes "\<not> WorkflowResult.success result" "\<not> vercelVerified (steps result)"
    and "availabilityCheck (steps result)" "domainPurchase (steps result)"
    and "WorkflowResult.errors result = []"
  shows "wellEnded (step3 env d state result h)"
proof (cases "validateConfig (config env) Cloudflare")
  case (Inl e)
  with assms show ?thesis by (simp add: step3_def)
next
  case (Inr u)
  obtain r h1 where z: "createZone env d h = (r, h1)"
    by (cases "createZone env d h")
  show ?thesis
  proof (cases "\<not> CreateZoneResult.success r \<or> zone r = None")
    case True
    with Inr z assms show ?thesis
      by (simp add: step3_def pushError_def consistent_def allSteps_def)
  next
    case False
    with Inr z have "step3 env d state result h =
        step4 env d (the (zone r))
          (state\<lparr>WorkflowState.cloudflareZoneId := Some (zid (the (zone r)))\<rparr>)
          (result\<lparr>steps := (steps result)\<lparr>cloudflareZone := True\<rparr>,
             details := (details result)\<lparr>
               Details.cloudflareZoneId := Some (zid (the (zone r))),
               cloudflareNameservers := Some (nameServers (the (zone r)))\<rparr>\<rparr>) h1"
      by (auto simp: step3_def Let_def)
    also have "wellEnded \<dots>"
      by (rule step4_wellEnded) (use assms in simp_all)
    finally show ?thesis .
  qed
qed

lemma step2_wellEnded:
  assumes "\<not> WorkflowResult.success result" "\<not> vercelVerified (steps result)"
    and "availabilityCheck (steps result)"
    and "WorkflowResult.errors result = []"
  shows "wellEnded (step2 env d years' enableWhoisGuard' state result h)"
proof (cases "validateConfig (config env) Registrant")
  case (Inl e)
  with assms show ?thesis by (simp add: step2_def)
next
  case (Inr u)
  obtain out h1 where p: "purchaseDomain env d years' enableWhoisGuard' h = (out, h1)"
    by (cases "purchaseDomain env d years' enableWhoisGuard' h")
  show ?thesis
  proof (cases out)
    case (Inl e)
    with Inr p assms show ?thesis by (simp add: step2_def)
  next
    case r: (Inr purchaseResult)
    show ?thesis
    proof (cases "PurchaseResult.success purchaseResult")
      case False
      with Inr r p assms show ?thesis
        by (simp add: step2_def pushError_def consistent_def allSteps_def)
    next
      case True
      with Inr r p have "step2 env d years' enableWhoisGuard' state result h =
          step3 env d (state\<lparr>domainPurchased := True\<rparr>)
            (result\<lparr>steps := (steps result)\<lparr>domainPurchase := True\<rparr>,
               details := (details result)\<lparr>
                 Details.domainId := PurchaseResult.domainId purchaseResult,
                 Details.transactionId := PurchaseResult.transactionId purchaseResult\<rparr>\<rparr>) h1"
        by (simp add: step2_def Let_def)
      also have "wellEnded \<dots>"
        by (rule step3_wellEnded) (use assms in simp_all)
      finally show ?thesis .
    qed
  qed
qed

lemma step1_wellEnded:
  assumes "\<not> WorkflowResult.success result" "\<not> vercelVerified (steps result)"
    and "WorkflowResult.errors result = []"
  shows "wellEnded (step1 env d years' enableWhoisGuard' state result h)"
proof (cases "validateConfig (config env) Namecheap")
  case (Inl e)
  with assms show ?thesis by (simp add: step1_def)
next
  case (Inr u)
  obtain a h1 where c: "checkAvailability env d h = (a, h1)"
    by (cases "checkAvailability env d h")
  show ?thesis
  proof (cases "available a")
    case False
    with Inr c assms show ?thesis
      by (simp add: step1_def pushError_def consistent_def allSteps_def)
  next
    case True
    with Inr c have "step1 env d years' enableWhoisGuard' state result h =
        step2 env d years' enableWhoisGuard' state
          (result\<lparr>steps := (steps result)\<lparr>availabilityCheck := True\<rparr>\<rparr>) h1"
      by (simp add: step1_def)
    also have "wellEnded \<dots>"
      by (rule step2_wellEnded) (use assms in simp_all)
    finally show ?thesis .
  qed
qed

text \<open>
  C1. Whatever the configuration and the providers' answers, \<open>runWorkflow\<close> returns a
  result (it does not throw), and in it \<open>success\<close> holds exactly when all seven step flags
  are set, a flag that is not set comes with at least one error, and a successful result
  has no error.
\<close>

theorem runWorkflow_result_consistent:
  "\<exists>result h1. runWorkflow env d years' enableWhoisGuard' h = (Inr result, h1) \<and>
     consistent result"
proof -
  obtain c state result h1 where
    s: "step1 env d years' enableWhoisGuard' (initialState d years' enableWhoisGuard')
          initialResult h = (c, state, result, h1)"
    by (cases "step1 env d years' enableWhoisGuard' (initialState d years' enableWhoisGuard')
          initialResult h") auto
  have w: "wellEnded (c, state, result, h1)"
    using step1_wellEnded [of initialResult env d years' enableWhoisGuard'
        "initialState d years' enableWhoisGuard'" h] s
    by (simp add: initialResult_def)
  show ?thesis
  proof (cases c)
    case Return
    with s w show ?thesis
      by (simp add: runWorkflow_def runWorkflow_state_def)
  next
    case (Throw thrown)
    with w obtain e where "thrown = Some e" by (cases thrown) auto
    with Throw s w show ?thesis
      by (simp add: runWorkflow_def runWorkflow_state_def pushError_def consistent_def
          allSteps_def)
  qed
qed

theorem runWorkflow_result_consistent_witness:
  "\<exists>result h1. runWorkflow zoneErrorEnv ''example-test.com'' 1 True [] = (Inr result, h1) \<and>
     consistent result \<and> \<not> allSteps (steps result) \<and>
     WorkflowResult.errors result = [''Cloudflare Zone: Request failed with status code 500'']"
  using runWorkflow_result_consistent [of zoneErrorEnv "''example-test.com''" 1 True "[]"]
  by (simp add: adapter_defs workflow_defs example_defs Let_def)

section \<open>Domains without a dot\<close>

lemma js_split_nonempty: "js_split c s \<noteq> []"
  by (induction s) (auto split: list.splits)

lemma js_split_length: "(length (js_split c s) < 2) = (c \<notin> set s)"
proof (induction s)
  case Nil
  then show ?case by simp
next
  case (Cons x xs)
  then show ?case
    using js_split_nonempty [of c xs]
    by (cases "js_split c xs") auto
qed

lemma splitDomain_no_dot:
  "CHR ''.'' \<notin> set d \<Longrightarrow> splitDomain d = Inl (Error (''Invalid domain format: '' @ d))"
  using js_split_length [of "CHR ''.''" d] by (simp add: splitDomain_def Let_def)

lemma splitDomain_dot:
  "CHR ''.'' \<in> set d \<Longrightarrow> \<exists>sld tld. splitDomain d = Inr (sld, tld)"
  using js_split_length [of "CHR ''.''" d] by (simp add: splitDomain_def Let_def)

lemma setNameservers_returns:
  assumes "CHR ''.'' \<in> set d"
  shows "\<exists>r. fst (setNameservers env d nameservers h) = Inr r"
  using splitDomain_dot [OF assms]
  by (auto simp: setNameservers_def Let_def split: nc_reply.splits)

lemma purchaseDomain_returns:
  assumes "CHR ''.'' \<in> set d"
  shows "\<exists>r. fst (purchaseDomain env d years' enableWhoisGuard' h) = Inr r"
  using splitDomain_dot [OF assms]
  by (auto simp: purchaseDomain_def Let_def split: nc_reply.splits option.splits prod.splits)

text \<open>
  C9 as the code has it. For a domain that contains no dot, \<open>purchaseDomain\<close> and
  \<open>setNameservers\<close> throw the error "Invalid domain format" of \<open>splitDomain\<close> before any
  request is sent; they do not return a result with \<open>success = false\<close>.
\<close>

theorem invalid_domain_is_thrown:
  assumes "CHR ''.'' \<notin> set d"
  shows "purchaseDomain env d years' enableWhoisGuard' h =
           (Inl (Error (''Invalid domain format: '' @ d)), h) \<and>
         setNameservers env d nameservers h =
           (Inl (Error (''Invalid domain format: '' @ d)), h)"
  using splitDomain_no_dot [OF assms]
  by (simp add: purchaseDomain_def setNameservers_def)


theorem invalid_domain_is_thrown_witness:
  "CHR ''.'' \<notin> set ''localhost'' \<and>
   purchaseDomain exampleEnv ''localhost'' 1 True [] =
     (Inl (Error ''Invalid domain format: localhost''), []) \<and>
   setNameservers exampleEnv ''localhost'' [''ns1.x'', ''ns2.x''] [] =
     (Inl (Error ''Invalid domain format: localhost''), [])"
  using invalid_domain_is_thrown [of "''localhost''" exampleEnv 1 True "[]" "[''ns1.x'', ''ns2.x'']"]
  by simp

text \<open>
  C9 as the specification has it fails: on the domain \<open>localhost\<close> both operations end by
  throwing (\<open>Inl\<close>), not by returning an error result (\<open>Inr\<close>).
\<close>

theorem invalid_domain_counterexample:
  "fst (purchaseDomain exampleEnv ''localhost'' 1 True []) =
     Inl (Error ''Invalid domain format: localhost'') \<and>
   fst (setNameservers exampleEnv ''localhost'' [''ns1.x'', ''ns2.x''] []) =
     Inl (Error ''Invalid domain format: localhost'')"
  by (simp add: adapter_defs Let_def)

section \<open>Batches of DNS records\<close>

lemma createDNSRecords_loop_in_order:
  "createDNSRecords_loop env zoneId records ids errs h =
     (case createInOrder env zoneId records h of (xs, h1) \<Rightarrow>
        (ids @ recordIds (batchResult xs), errs @ CreateDNSRecordsResult.errors (batchResult xs), h1))"
proof (induction records arbitrary: ids errs h)
  case Nil
  then show ?case by (simp add: batchResult_def createdIds_def)
next
  case (Cons r rest)
  show ?case
    by (simp add: Cons.IH batchResult_def createdIds_def created_def failureLine_def
        split: prod.splits)
qed

lemma createDNSRecords_in_order:
  "createDNSRecords env zoneId records h =
     (case createInOrder env zoneId records h of (xs, h1) \<Rightarrow> (batchResult xs, h1))"
  by (auto simp: createDNSRecords_def createDNSRecords_loop_in_order batchResult_def
      createdIds_def list_all_iff filter_empty_conv split: prod.splits)

lemma createDNSRecord_failure_message:
  "createDNSRecord env zoneId record h = (res, h1) \<Longrightarrow> \<not> CreateDNSRecordResult.success res \<Longrightarrow>
   \<exists>m. CreateDNSRecordResult.errorMessage res = Some m"
  by (auto simp: createDNSRecord_def Let_def split: axios_reply.splits cf_body.splits)

text \<open>
  C6. \<open>createDNSRecords\<close> creates the records one after the other in the order of the
  list and reports the id of every record created (lemma \<open>createDNSRecords_in_order\<close>,
  restated in the first part). When the first and the third of three records are
  created, with non-empty ids, and the second is not, it returns the two ids in that
  order, \<open>success = false\<close> and the one line "type name: message" of the second record.
\<close>

theorem createDNSRecords_second_of_three_fails:
  assumes c1: "createDNSRecord env zoneId rec1 h = (res1, h1)"
    and ok1: "CreateDNSRecordResult.success res1" "recordId res1 = Some id1" "id1 \<noteq> []"
    and c2: "createDNSRecord env zoneId rec2 h1 = (res2, h2)"
    and bad2: "\<not> CreateDNSRecordResult.success res2"
    and c3: "createDNSRecord env zoneId rec3 h2 = (res3, h3)"
    and ok3: "CreateDNSRecordResult.success res3" "recordId res3 = Some id3" "id3 \<noteq> []"
  shows "(\<forall>records h'. createDNSRecords env zoneId records h' =
            (batchResult (fst (createInOrder env zoneId records h')),
             snd (createInOrder env zoneId records h'))) \<and>
         (\<exists>m. CreateDNSRecordResult.errorMessage res2 = Some m \<and>
            createDNSRecords env zoneId [rec1, rec2, rec3] h =
              (\<lparr>CreateDNSRecordsResult.success = False, recordIds = [id1, id3],
                errors = [typeName (DNSRecord.type rec2) @ '' '' @ DNSRecord.name rec2 @ '': '' @ m]\<rparr>,
               h3))"
proof -
  obtain m where m: "CreateDNSRecordResult.errorMessage res2 = Some m"
    using createDNSRecord_failure_message [OF c2 bad2] by blast
  have "createDNSRecords env zoneId [rec1, rec2, rec3] h =
      (\<lparr>CreateDNSRecordsResult.success = False, recordIds = [id1, id3],
        errors = [typeName (DNSRecord.type rec2) @ '' '' @ DNSRecord.name rec2 @ '': '' @ m]\<rparr>, h3)"
    using c1 ok1 c2 bad2 c3 ok3 m
    by (simp add: createDNSRecords_def truthy_def interpolate_def)
  with m show ?thesis
    by (auto simp: createDNSRecords_in_order split: prod.splits)
qed

theorem createDNSRecords_second_of_three_fails_witness:
  "createDNSRecords exampleEnv ''Z1''
     [\<lparr>DNSRecord.type = A, DNSRecord.name = ''a'', content = ''76.76.21.21'', ttl = None,
        proxied = Some False, priority = None\<rparr>,
      \<lparr>DNSRecord.type = CNAME, DNSRecord.name = ''bad'', content = ''x.example'', ttl = None,
        proxied = Some False, priority = None\<rparr>,
      \<lparr>DNSRecord.type = CNAME, DNSRecord.name = ''www'', content = ''cname.vercel-dns.com'',
        ttl = None, proxied = Some False, priority = None\<rparr>] [] =
   (\<lparr>CreateDNSRecordsResult.success = False, recordIds = [''R-a'', ''R-www''],
     errors = [''CNAME bad: Record already exists.'']\<rparr>,
    [Http (PostRecord ''Z1'' \<lparr>DNSRecord.type = A, DNSRecord.name = ''a'',
        content = ''76.76.21.21'', ttl = Some 1, proxied = Some False, priority = None\<rparr>),
     Http (PostRecord ''Z1'' \<lparr>DNSRecord.type = CNAME, DNSRecord.name = ''bad'',
        content = ''x.example'', ttl = Some 1, proxied = Some False, priority = None\<rparr>),
     Http (PostRecord ''Z1'' \<lparr>DNSRecord.type = CNAME, DNSRecord.name = ''www'',
        content = ''cname.vercel-dns.com'', ttl = Some 1, proxied = Some False,
        priority = None\<rparr>)])"
proof -
  let ?r1 = "\<lparr>DNSRecord.type = A, DNSRecord.name = ''a'', content = ''76.76.21.21'', ttl = None,
        proxied = Some False, priority = None\<rparr>"
  let ?r2 = "\<lparr>DNSRecord.type = CNAME, DNSRecord.name = ''bad'', content = ''x.example'', ttl = None,
        proxied = Some False, priority = None\<rparr>"
  let ?r3 = "\<lparr>DNSRecord.type = CNAME, DNSRecord.name = ''www'', content = ''cname.vercel-dns.com'',
        ttl = None, proxied = Some False, priority = None\<rparr>"
  let ?e1 = "Http (PostRecord ''Z1'' \<lparr>DNSRecord.type = A, DNSRecord.name = ''a'',
        content = ''76.76.21.21'', ttl = Some 1, proxied = Some False, priority = None\<rparr>)"
  let ?e2 = "Http (PostRecord ''Z1'' \<lparr>DNSRecord.type = CNAME, DNSRecord.name = ''bad'',
        content = ''x.example'', ttl = Some 1, proxied = Some False, priority = None\<rparr>)"
  let ?e3 = "Http (PostRecord ''Z1'' \<lparr>DNSRecord.type = CNAME, DNSRecord.name = ''www'',
        content = ''cname.vercel-dns.com'', ttl = Some 1, proxied = Some False,
        priority = None\<rparr>)"
  have 1: "createDNSRecord exampleEnv ''Z1'' ?r1 [] =
      (\<lparr>CreateDNSRecordResult.success = True, recordId = Some ''R-a'',
        CreateDNSRecordResult.errorMessage = None\<rparr>, [?e1])"
    by (simp add: adapter_defs example_defs)
  have 2: "createDNSRecord exampleEnv ''Z1'' ?r2 [?e1] =
      (\<lparr>CreateDNSRecordResult.success = False, recordId = None,
        CreateDNSRecordResult.errorMessage = Some ''Record already exists.''\<rparr>, [?e1, ?e2])"
    by (simp add: adapter_defs example_defs)
  have 3: "createDNSRecord exampleEnv ''Z1'' ?r3 [?e1, ?e2] =
      (\<lparr>CreateDNSRecordResult.success = True, recordId = Some ''R-www'',
        CreateDNSRecordResult.errorMessage = None\<rparr>, [?e1, ?e2, ?e3])"
    by (simp add: adapter_defs example_defs)
  from createDNSRecords_second_of_three_fails [OF 1 _ _ _ 2 _ 3, of "''R-a''" "''R-www''"]
  obtain m where
    "CreateDNSRecordResult.errorMessage \<lparr>CreateDNSRecordResult.success = False, recordId = None,
        CreateDNSRecordResult.errorMessage = Some ''Record already exists.''\<rparr> = Some m"
    "createDNSRecords exampleEnv ''Z1'' [?r1, ?r2, ?r3] [] =
       (\<lparr>CreateDNSRecordsResult.success = False, recordIds = [''R-a'', ''R-www''],
         errors = [typeName (DNSRecord.type ?r2) @ '' '' @ DNSRecord.name ?r2 @ '': '' @ m]\<rparr>,
        [?e1, ?e2, ?e3])"
    by auto
  then show ?thesis by simp
qed

section \<open>Verification records in step 6\<close>

lemma createVerificationRecords_txtCreations:
  "createVerificationRecords env zoneId vs ids h =
     (ids @ createdIds (fst (txtCreations env zoneId vs h)), snd (txtCreations env zoneId vs h))"
proof (induction vs arbitrary: ids h)
  case Nil
  then show ?case by (simp add: createdIds_def)
next
  case (Cons v rest)
  show ?case
    by (simp add: Cons.IH createdIds_def created_def txtRecord_def split: prod.splits)
qed

lemma txtCreations_records:
  "txtCreations env zoneId vs h = (xs, h1) \<Longrightarrow>
   map fst xs = filter (\<lambda>v. VerificationRecord.type v = ''TXT'') vs"
  by (induction vs arbitrary: h xs) (auto split: prod.splits if_splits)

lemma step7_errors:
  "step7 env d state result h = (c, state1, result1, h1) \<Longrightarrow>
     c = Return \<and> state1 = state \<and> details result1 = details result \<and>
     (WorkflowResult.errors result1 = WorkflowResult.errors result \<or>
      WorkflowResult.errors result1 = WorkflowResult.errors result @ [verificationFailure])"
  by (auto simp: step7_def Let_def pushError_def verificationFailure_def split: prod.splits if_splits)

text \<open>
  C10. When the hosting platform takes the domain and asks for verification records,
  step 6 tries to create the records of type TXT, and only those; it goes on to step 7
  with the result unchanged but for the flag \<open>vercelDomain\<close> (and the id list shared with
  the state): no error is pushed for a record that could not be created. The ids of the
  records created, and no others, are appended to \<open>cloudflareRecordIds\<close>. At the end the
  error list is the one step 6 started with, or that list and the line of step 7.
\<close>

theorem step6_drops_verification_record_failures:
  assumes cfg: "validateConfig (config env) Vercel = Inr ()"
    and add: "addDomain env d h = (addResult, h1)"
    and ok: "AddDomainResult.success addResult"
    and req: "verificationRequired addResult = Some True"
    and recs: "verificationRecords addResult = Some vs"
    and made: "txtCreations env (zid zone') vs h1 = (attempts, h2)"
    and ids: "ids = cloudflareRecordIds state @ createdIds attempts"
    and run: "step6 env d zone' state result h = (c, state1, result1, h3)"
  shows "map fst attempts = filter (\<lambda>v. VerificationRecord.type v = ''TXT'') vs \<and>
         step6 env d zone' state result h =
           step7 env d (state\<lparr>vercelDomainAdded := True, cloudflareRecordIds := ids\<rparr>)
             (result\<lparr>steps := (steps result)\<lparr>vercelDomain := True\<rparr>,
                     details := (details result)\<lparr>dnsRecordIds := Some ids\<rparr>\<rparr>) h2 \<and>
         c = Return \<and> cloudflareRecordIds state1 = ids \<and>
         (WorkflowResult.errors result1 = WorkflowResult.errors result \<or>
          WorkflowResult.errors result1 = WorkflowResult.errors result @ [verificationFailure])"
proof -
  have a: "map fst attempts = filter (\<lambda>v. VerificationRecord.type v = ''TXT'') vs"
    using txtCreations_records [OF made] .
  have b: "step6 env d zone' state result h =
           step7 env d (state\<lparr>vercelDomainAdded := True, cloudflareRecordIds := ids\<rparr>)
             (result\<lparr>steps := (steps result)\<lparr>vercelDomain := True\<rparr>,
                     details := (details result)\<lparr>dnsRecordIds := Some ids\<rparr>\<rparr>) h2"
    using cfg add ok req recs made ids
    by (simp add: step6_def Let_def createVerificationRecords_txtCreations)
  from step7_errors [OF run [unfolded b]] a b show ?thesis
    by simp
qed

theorem step6_drops_verification_record_failures_witness:
  "\<exists>state1 result1 h3.
     step6 verificationEnv ''example-test.com''
       \<lparr>zid = ''Z1'', CloudflareZone.name = ''example-test.com'', status = ''pending'',
        nameServers = [''ns1.x'', ''ns2.x'']\<rparr>
       (initialState ''example-test.com'' 1 True) initialResult [] =
       (Return, state1, result1, h3) \<and>
     cloudflareRecordIds state1 = [''R-_vercel''] \<and>
     WorkflowResult.errors result1 = [] \<and>
     length (filter (\<lambda>e. e = Http (PostVerify ''example-test.com'')) h3) = 1"
proof -
  let ?d = "''example-test.com''"
  let ?z = "\<lparr>zid = ''Z1'', CloudflareZone.name = ''example-test.com'', status = ''pending'',
        nameServers = [''ns1.x'', ''ns2.x'']\<rparr>"
  let ?vs = "[\<lparr>VerificationRecord.type = ''TXT'', VerificationRecord.name = ''_vercel'',
                VerificationRecord.val = ''vc-domain-verify=1''\<rparr>,
              \<lparr>VerificationRecord.type = ''TXT'', VerificationRecord.name = ''bad'',
                VerificationRecord.val = ''vc-domain-verify=2''\<rparr>,
              \<lparr>VerificationRecord.type = ''CNAME'', VerificationRecord.name = ''www'',
                VerificationRecord.val = ''cname.vercel-dns.com''\<rparr>]"
  have cfg: "validateConfig (config verificationEnv) Vercel = Inr ()"
    by (simp add: adapter_defs example_defs)
  obtain addResult h1 where add: "addDomain verificationEnv ?d [] = (addResult, h1)"
    by (cases "addDomain verificationEnv ?d []")
  from add have ok: "AddDomainResult.success addResult"
    and req: "verificationRequired addResult = Some True"
    and recs: "verificationRecords addResult = Some ?vs"
    and h1: "h1 = [Http (PostDomain ?d)]"
    by (auto simp: adapter_defs example_defs)
  obtain attempts h2 where made: "txtCreations verificationEnv (zid ?z) ?vs h1 = (attempts, h2)"
    by (cases "txtCreations verificationEnv (zid ?z) ?vs h1")
  from made h1 have ids: "[''R-_vercel''] =
      cloudflareRecordIds (initialState ?d 1 True) @ createdIds attempts"
    by (auto simp: adapter_defs example_defs txtRecord_def createdIds_def created_def
        initialState_def)
  obtain c state1 result1 h3 where
    run: "step6 verificationEnv ?d ?z (initialState ?d 1 True) initialResult [] =
            (c, state1, result1, h3)"
    by (cases "step6 verificationEnv ?d ?z (initialState ?d 1 True) initialResult []") auto
  from step6_drops_verification_record_failures [OF cfg add ok req recs made ids run]
  have "c = Return" "cloudflareRecordIds state1 = [''R-_vercel'']"
    "WorkflowResult.errors result1 = WorkflowResult.errors initialResult \<or>
     WorkflowResult.errors result1 = WorkflowResult.errors initialResult @ [verificationFailure]"
    by simp_all
  moreover from run have "WorkflowResult.errors result1 = []"
    "length (filter (\<lambda>e. e = Http (PostVerify ''example-test.com'')) h3) = 1"
    by (auto simp: adapter_defs workflow_defs example_defs Let_def)
  ultimately show ?thesis using run by simp
qed

section \<open>The polling loops\<close>

lemma checks_Suc: "checks c ms (Suc k) = (if k = 0 then [] else checks c ms k @ [Sleep ms]) @ [Http c]"
  by (cases k) simp_all

lemma verifyDomain_verified:
  "verifyDomain env d h = (r, h1) \<Longrightarrow>
   h1 = h @ [Http (PostVerify d)] \<and>
   VerifyDomainResult.verified r = (postVerify env (h @ [Http (PostVerify d)]) = AxiosResponse True)"
  by (auto simp: verifyDomain_def Let_def split: axios_reply.splits)

lemma verification_loop_step:
  assumes "attempt \<le> maxAtt" and "verifyDomain env d h = (r, h1)"
  shows "waitForDomainVerification_loop env d maxAtt ms attempt h =
     (if VerifyDomainResult.verified r then (True, h1)
      else if attempt < maxAtt
      then waitForDomainVerification_loop env d maxAtt ms (attempt + 1) (h1 @ [Sleep ms])
      else (False, h1))"
proof -
  have last: "waitForDomainVerification_loop env d maxAtt ms (maxAtt + 1) h1 = (False, h1)"
    by (simp add: waitForDomainVerification_loop.simps)
  show ?thesis
    using assms last
    by (subst waitForDomainVerification_loop.simps) (auto simp: delay_def)
qed

lemma verification_loop_from:
  assumes "k \<le> n" and "attempt = int (Suc k)" and "maxAtt = int (Suc n)"
  shows "waitForDomainVerification_loop env d maxAtt ms attempt
           (h @ (if k = 0 then [] else checks (PostVerify d) ms k @ [Sleep ms])) =
         (case find (\<lambda>j. postVerify env (h @ checks (PostVerify d) ms j) = AxiosResponse True)
                 [Suc k..<Suc (Suc n)] of
            Some j \<Rightarrow> (True, h @ checks (PostVerify d) ms j)
          | None \<Rightarrow> (False, h @ checks (PostVerify d) ms (Suc n)))"
  using assms
proof (induction "n - k" arbitrary: k attempt)
  case 0
  then have kn: "k = n" and att: "attempt = maxAtt" by simp_all
  obtain r h1 where v: "verifyDomain env d
      (h @ (if k = 0 then [] else checks (PostVerify d) ms k @ [Sleep ms])) = (r, h1)"
    by (cases "verifyDomain env d
      (h @ (if k = 0 then [] else checks (PostVerify d) ms k @ [Sleep ms]))")
  from verifyDomain_verified [OF v]
  have h1: "h1 = h @ checks (PostVerify d) ms (Suc k)"
    and r: "VerifyDomainResult.verified r =
      (postVerify env (h @ checks (PostVerify d) ms (Suc k)) = AxiosResponse True)"
    by (simp_all add: checks_Suc)
  have range: "[Suc n..<Suc (Suc n)] = [Suc n]"
    by (simp add: upt_rec [of "Suc n"] del: upt_Suc)
  have "attempt \<le> maxAtt" using att by simp
  from verification_loop_step [OF this v, of ms] att h1 r kn
  show ?case
    by (simp add: range del: upt_Suc checks.simps)
next
  case (Suc m)
  then have kn: "k < n" and step: "m = n - Suc k" and le: "Suc k \<le> n" by simp_all
  from Suc.prems have att: "attempt < maxAtt" "attempt + 1 = int (Suc (Suc k))"
    using kn by simp_all
  obtain r h1 where v: "verifyDomain env d
      (h @ (if k = 0 then [] else checks (PostVerify d) ms k @ [Sleep ms])) = (r, h1)"
    by (cases "verifyDomain env d
      (h @ (if k = 0 then [] else checks (PostVerify d) ms k @ [Sleep ms]))")
  from verifyDomain_verified [OF v]
  have h1: "h1 = h @ checks (PostVerify d) ms (Suc k)"
    and r: "VerifyDomainResult.verified r =
      (postVerify env (h @ checks (PostVerify d) ms (Suc k)) = AxiosResponse True)"
    by (simp_all add: checks_Suc)
  have range: "[Suc k..<Suc (Suc n)] = Suc k # [Suc (Suc k)..<Suc (Suc n)]"
    using kn by (simp add: upt_rec [of "Suc k"] del: upt_Suc)
  have "attempt \<le> maxAtt" using att by simp
  note unfold = verification_loop_step [OF this v, of ms]
  show ?case
  proof (cases "VerifyDomainResult.verified r")
    case True
    with unfold h1 r show ?thesis
      by (simp add: range del: upt_Suc checks.simps)
  next
    case False
    have "waitForDomainVerification_loop env d maxAtt ms attempt
           (h @ (if k = 0 then [] else checks (PostVerify d) ms k @ [Sleep ms])) =
          waitForDomainVerification_loop env d maxAtt ms (attempt + 1)
           (h @ (if Suc k = 0 then [] else checks (PostVerify d) ms (Suc k) @ [Sleep ms]))"
      using unfold False att h1 by (simp del: checks.simps)
    also note Suc.hyps(1) [OF step le att(2) Suc.prems(3)]
    finally show ?thesis
      using False r by (simp add: range del: upt_Suc checks.simps)
  qed
qed

lemma getZoneStatus_active:
  "getZoneStatus env zoneId h = (r, h1) \<Longrightarrow>
   h1 = h @ [Http (GetZone zoneId)] \<and>
   map_option fst r = Some ''active'' = active (getZone env (h @ [Http (GetZone zoneId)]))"
  by (auto simp: getZoneStatus_def active_def Let_def split: axios_reply.splits cf_body.splits)

lemma activation_loop_step:
  assumes "attempt \<le> maxAtt" and "getZoneStatus env zoneId h = (r, h1)"
  shows "waitForZoneActivation_loop env zoneId maxAtt ms attempt h =
     (if map_option fst r = Some ''active'' then (True, h1)
      else if attempt < maxAtt
      then waitForZoneActivation_loop env zoneId maxAtt ms (attempt + 1) (h1 @ [Sleep ms])
      else (False, h1))"
proof -
  have last: "waitForZoneActivation_loop env zoneId maxAtt ms (maxAtt + 1) h1 = (False, h1)"
    by (simp add: waitForZoneActivation_loop.simps)
  show ?thesis
    using assms last
    by (subst waitForZoneActivation_loop.simps) (auto simp: delay_def)
qed

lemma activation_loop_from:
  assumes "k \<le> n" and "attempt = int (Suc k)" and "maxAtt = int (Suc n)"
  shows "waitForZoneActivation_loop env zoneId maxAtt ms attempt
           (h @ (if k = 0 then [] else checks (GetZone zoneId) ms k @ [Sleep ms])) =
         (case find (\<lambda>j. active (getZone env (h @ checks (GetZone zoneId) ms j)))
                 [Suc k..<Suc (Suc n)] of
            Some j \<Rightarrow> (True, h @ checks (GetZone zoneId) ms j)
          | None \<Rightarrow> (False, h @ checks (GetZone zoneId) ms (Suc n)))"
  using assms
proof (induction "n - k" arbitrary: k attempt)
  case 0
  then have kn: "k = n" and att: "attempt = maxAtt" by simp_all
  obtain r h1 where v: "getZoneStatus env zoneId
      (h @ (if k = 0 then [] else checks (GetZone zoneId) ms k @ [Sleep ms])) = (r, h1)"
    by (cases "getZoneStatus env zoneId
      (h @ (if k = 0 then [] else checks (GetZone zoneId) ms k @ [Sleep ms]))")
  from getZoneStatus_active [OF v]
  have h1: "h1 = h @ checks (GetZone zoneId) ms (Suc k)"
    and r: "map_option fst r = Some ''active'' =
      active (getZone env (h @ checks (GetZone zoneId) ms (Suc k)))"
    by (simp_all add: checks_Suc)
  have range: "[Suc n..<Suc (Suc n)] = [Suc n]"
    by (simp add: upt_rec [of "Suc n"] del: upt_Suc)
  have "attempt \<le> maxAtt" using att by simp
  from activation_loop_step [OF this v, of ms] att h1 r kn
  show ?case
    by (simp add: range del: upt_Suc checks.simps)
next
  case (Suc m)
  then have kn: "k < n" and step: "m = n - Suc k" and le: "Suc k \<le> n" by simp_all
  from Suc.prems have att: "attempt < maxAtt" "attempt + 1 = int (Suc (Suc k))"
    using kn by simp_all
  obtain r h1 where v: "getZoneStatus env zoneId
      (h @ (if k = 0 then [] else checks (GetZone zoneId) ms k @ [Sleep ms])) = (r, h1)"
    by (cases "getZoneStatus env zoneId
      (h @ (if k = 0 then [] else checks (GetZone zoneId) ms k @ [Sleep ms]))")
  from getZoneStatus_active [OF v]
  have h1: "h1 = h @ checks (GetZone zoneId) ms (Suc k)"
    and r: "map_option fst r = Some ''active'' =
      active (getZone env (h @ checks (GetZone zoneId) ms (Suc k)))"
    by (simp_all add: checks_Suc)
  have range: "[Suc k..<Suc (Suc n)] = Suc k # [Suc (Suc k)..<Suc (Suc n)]"
    using kn by (simp add: upt_rec [of "Suc k"] del: upt_Suc)
  have "attempt \<le> maxAtt" using att by simp
  note unfold = activation_loop_step [OF this v, of ms]
  show ?case
  proof (cases "map_option fst r = Some ''active''")
    case True
    with unfold h1 r show ?thesis
      by (simp add: range del: upt_Suc checks.simps)
  next
    case False
    have "waitForZoneActivation_loop env zoneId maxAtt ms attempt
           (h @ (if k = 0 then [] else checks (GetZone zoneId) ms k @ [Sleep ms])) =
          waitForZoneActivation_loop env zoneId maxAtt ms (attempt + 1)
           (h @ (if Suc k = 0 then [] else checks (GetZone zoneId) ms (Suc k) @ [Sleep ms]))"
      using unfold False att h1 by (simp del: checks.simps)
    also note Suc.hyps(1) [OF step le att(2) Suc.prems(3)]
    finally show ?thesis
      using False r by (simp add: range del: upt_Suc checks.simps)
  qed
qed

text \<open>
  C4 as the code has it. For \<open>maxAttempts\<close> of at least one, each of the two waiters
  sends its check first and waits for the interval only between one check and the next.
  It returns true with the history of the first check that succeeds, so without a
  further delay; any other answer to a check, a failed request too, leaves it waiting;
  and when none of the \<open>maxAttempts\<close> checks succeeds it returns false after the last
  check.
\<close>

theorem polling_checks_before_delay:
  assumes "1 \<le> maxAtt"
  shows "waitForDomainVerification env d maxAtt ms h =
     (case find (\<lambda>j. postVerify env (h @ checks (PostVerify d) ms j) = AxiosResponse True)
             [1..<Suc (nat maxAtt)] of
        Some j \<Rightarrow> (True, h @ checks (PostVerify d) ms j)
      | None \<Rightarrow> (False, h @ checks (PostVerify d) ms (nat maxAtt))) \<and>
   waitForZoneActivation env zoneId maxAtt ms h =
     (case find (\<lambda>j. active (getZone env (h @ checks (GetZone zoneId) ms j)))
             [1..<Suc (nat maxAtt)] of
        Some j \<Rightarrow> (True, h @ checks (GetZone zoneId) ms j)
      | None \<Rightarrow> (False, h @ checks (GetZone zoneId) ms (nat maxAtt)))"
proof -
  obtain n where n: "nat maxAtt = Suc n"
    using assms by (cases "nat maxAtt") auto
  with assms have m: "maxAtt = int (Suc n)" by linarith
  have "waitForDomainVerification_loop env d maxAtt ms 1 (h @ []) =
     (case find (\<lambda>j. postVerify env (h @ checks (PostVerify d) ms j) = AxiosResponse True)
             [Suc 0..<Suc (Suc n)] of
        Some j \<Rightarrow> (True, h @ checks (PostVerify d) ms j)
      | None \<Rightarrow> (False, h @ checks (PostVerify d) ms (Suc n)))"
    using verification_loop_from [OF _ _ m, of 0 1 env d ms h] by simp
  moreover have "waitForZoneActivation_loop env zoneId maxAtt ms 1 (h @ []) =
     (case find (\<lambda>j. active (getZone env (h @ checks (GetZone zoneId) ms j)))
             [Suc 0..<Suc (Suc n)] of
        Some j \<Rightarrow> (True, h @ checks (GetZone zoneId) ms j)
      | None \<Rightarrow> (False, h @ checks (GetZone zoneId) ms (Suc n)))"
    using activation_loop_from [OF _ _ m, of 0 1 env zoneId ms h] by simp
  ultimately show ?thesis
    unfolding waitForDomainVerification_def waitForZoneActivation_def n by simp
qed

theorem polling_checks_before_delay_witness:
  "(1::int) \<le> 10 \<and>
   waitForDomainVerification pollingEnv ''example-test.com'' 10 30000 [] =
     (True,
      [Http (PostVerify ''example-test.com''), Sleep 30000,
       Http (PostVerify ''example-test.com''), Sleep 30000,
       Http (PostVerify ''example-test.com'')]) \<and>
   waitForZoneActivation pollingEnv ''Z1'' 10 30000 [] =
     (True, [Http (GetZone ''Z1''), Sleep 30000, Http (GetZone ''Z1'')])"
proof -
  let ?d = "''example-test.com''"
  have le: "(1::int) \<le> 10" by simp
  have c2: "checks c ms 2 = [Http c, Sleep ms, Http c]" for c ms
    by (simp add: numeral_2_eq_2)
  have c3: "checks c ms 3 = [Http c, Sleep ms, Http c, Sleep ms, Http c]" for c ms
    by (simp add: numeral_3_eq_3)
  have range: "[1..<Suc (nat 10)] = [1, 2, 3, 4, 5, 6, 7, 8, 9, 10]"
    by (simp add: upt_rec)
  have fv: "find (\<lambda>j. postVerify pollingEnv ([] @ checks (PostVerify ?d) 30000 j) =
             AxiosResponse True) [1..<Suc (nat 10)] = Some 3"
    unfolding range by (simp add: c2 c3 example_defs)
  have fz: "find (\<lambda>j. active (getZone pollingEnv ([] @ checks (GetZone ''Z1'') 30000 j)))
             [1..<Suc (nat 10)] = Some 2"
    unfolding range by (simp add: c2 example_defs active_def)
  note t = polling_checks_before_delay [OF le, of pollingEnv ?d 30000 "[]" "''Z1''"]
  from t [unfolded fv fz] le show ?thesis
    by (simp add: c2 c3)
qed

text \<open>
  C4 as the specification has it fails: the waiter does not wait before its first check,
  so no delay stands before every check, and the failed first check does not make it
  return false.
\<close>

theorem polling_order_counterexample:
  "waitForDomainVerification pollingEnv ''example-test.com'' 10 30000 [] =
     (True,
      [Http (PostVerify ''example-test.com''), Sleep 30000,
       Http (PostVerify ''example-test.com''), Sleep 30000,
       Http (PostVerify ''example-test.com'')]) \<and>
   \<not> delayBeforeEachCheck (snd (waitForDomainVerification pollingEnv ''example-test.com'' 10 30000 []))"
  by (simp add: adapter_defs workflow_defs example_defs Let_def)

section \<open>A zone that cannot be created\<close>

lemma createZone_nonConflictFailure:
  assumes "nonConflictFailure (postZone env (h @ [Http (PostZone d)]))"
  shows "\<exists>m. createZone env d h =
           (\<lparr>CreateZoneResult.success = False, zone = None,
             CreateZoneResult.errorMessage = Some m, alreadyExists = None\<rparr>,
            h @ [Http (PostZone d)])"
  using assms
  by (auto simp: createZone_def nonConflictFailure_def Let_def
      split: axios_reply.splits cf_body.splits)

lemma rollback_after_purchase_only:
  assumes "domainPurchased state" "\<not> vercelDomainAdded state"
    and "WorkflowState.cloudflareZoneId state = None"
  shows "rollback env state h =
     h @ rollbackHeading @
       [Log LogWarn (refundNotice (WorkflowState.domain state)), Log LogInfo ''Rollback completed'']"
  using assms by (simp add: rollback_def rollbackHeading_def truthy_def)

text \<open>
  C2 as the code has it. When the configuration is complete, the domain is available and
  is purchased, and the request for the zone fails without a conflict, \<open>runWorkflow\<close>
  runs \<open>rollback\<close>, which sends no request (nothing to remove from the hosting platform,
  no record to delete) and logs that the purchase cannot be refunded. The result is not
  successful and its error list is the one line of the zone failure; the notice is in the
  log, not in the error list.
\<close>

theorem zone_failure_after_purchase:
  assumes cfg: "validateConfig (config env) Namecheap = Inr ()"
      "validateConfig (config env) Registrant = Inr ()"
      "validateConfig (config env) Cloudflare = Inr ()"
    and avail: "checkAvailability env d h = (a, h1)" "available a"
    and purchase: "purchaseDomain env d years' enableWhoisGuard' h1 = (Inr p, h2)"
      "PurchaseResult.success p"
    and zoneFails: "nonConflictFailure (postZone env (h2 @ [Http (PostZone d)]))"
  shows "\<exists>m result.
      CreateZoneResult.errorMessage (fst (createZone env d h2)) = Some m \<and>
      runWorkflow env d years' enableWhoisGuard' h =
        (Inr result,
         h2 @ [Http (PostZone d)] @ rollbackHeading @
           [Log LogWarn (refundNotice d), Log LogInfo ''Rollback completed'']) \<and>
      \<not> WorkflowResult.success result \<and>
      WorkflowResult.errors result = [''Cloudflare Zone: '' @ m]"
proof -
  obtain m where z: "createZone env d h2 =
      (\<lparr>CreateZoneResult.success = False, zone = None,
        CreateZoneResult.errorMessage = Some m, alreadyExists = None\<rparr>,
       h2 @ [Http (PostZone d)])"
    using createZone_nonConflictFailure [OF zoneFails] by blast
  have "runWorkflow env d years' enableWhoisGuard' h =
      (Inr (pushError (''Cloudflare Zone: '' @ m)
         (initialResult\<lparr>steps := (steps initialResult)\<lparr>availabilityCheck := True,
              domainPurchase := True\<rparr>,
            details := (details initialResult)\<lparr>
              Details.domainId := PurchaseResult.domainId p,
              Details.transactionId := PurchaseResult.transactionId p\<rparr>\<rparr>)),
       h2 @ [Http (PostZone d)] @ rollbackHeading @
         [Log LogWarn (refundNotice d), Log LogInfo ''Rollback completed''])"
    using cfg avail purchase z
    by (simp add: runWorkflow_def runWorkflow_state_def step1_def step2_def step3_def Let_def
        interpolate_def rollback_after_purchase_only initialState_def)
  with z show ?thesis
    by (simp add: pushError_def initialResult_def)
qed

theorem zone_failure_after_purchase_witness:
  "\<exists>result.
     runWorkflow zoneErrorEnv ''example-test.com'' 1 True [] =
       (Inr result,
        [Http (DomainsCheck ''example-test.com''),
         Http (DomainsCreate ''example-test.com'' 1 True
           \<lparr>addressId = Some [], addressName = ''env'', isDefault = True,
            firstName = ''set'', lastName = ''set'', address1 = ''set'', address2 = ''set'',
            city = ''set'', stateProvince = ''set'', postalCode = ''set'', country = ''set'',
            phone = ''set'', email = ''set''\<rparr>),
         Http (PostZone ''example-test.com'')] @ rollbackHeading @
        [Log LogWarn (refundNotice ''example-test.com''), Log LogInfo ''Rollback completed'']) \<and>
     \<not> WorkflowResult.success result \<and>
     WorkflowResult.errors result = [''Cloudflare Zone: Request failed with status code 500'']"
proof -
  let ?d = "''example-test.com''"
  have cfg: "validateConfig (config zoneErrorEnv) Namecheap = Inr ()"
      "validateConfig (config zoneErrorEnv) Registrant = Inr ()"
      "validateConfig (config zoneErrorEnv) Cloudflare = Inr ()"
    by (simp_all add: adapter_defs example_defs)
  obtain a h1 where avail: "checkAvailability zoneErrorEnv ?d [] = (a, h1)"
    by (cases "checkAvailability zoneErrorEnv ?d []")
  then have a: "available a" and h1: "h1 = [Http (DomainsCheck ?d)]"
    by (auto simp: adapter_defs example_defs)
  obtain out h2 where p: "purchaseDomain zoneErrorEnv ?d 1 True h1 = (out, h2)"
    by (cases "purchaseDomain zoneErrorEnv ?d 1 True h1")
  with h1 obtain pr where out: "out = Inr pr" and ok: "PurchaseResult.success pr"
    and h2: "h2 = [Http (DomainsCheck ?d),
         Http (DomainsCreate ?d 1 True
           \<lparr>addressId = Some [], addressName = ''env'', isDefault = True,
            firstName = ''set'', lastName = ''set'', address1 = ''set'', address2 = ''set'',
            city = ''set'', stateProvince = ''set'', postalCode = ''set'', country = ''set'',
            phone = ''set'', email = ''set''\<rparr>)]"
    by (auto simp: adapter_defs example_defs Let_def)
  have zf: "nonConflictFailure (postZone zoneErrorEnv (h2 @ [Http (PostZone ?d)]))"
    by (simp add: nonConflictFailure_def conflict_def example_defs)
  from zone_failure_after_purchase [OF cfg avail a p [unfolded out] ok zf]
  obtain m result where
    m: "CreateZoneResult.errorMessage (fst (createZone zoneErrorEnv ?d h2)) = Some m"
    and run: "runWorkflow zoneErrorEnv ?d 1 True [] =
        (Inr result,
         h2 @ [Http (PostZone ?d)] @ rollbackHeading @
           [Log LogWarn (refundNotice ?d), Log LogInfo ''Rollback completed''])"
    and res: "\<not> WorkflowResult.success result"
      "WorkflowResult.errors result = [''Cloudflare Zone: '' @ m]"
    by blast
  from m have "m = ''Request failed with status code 500''"
    by (simp add: adapter_defs example_defs Let_def)
  with run res h2 show ?thesis by simp
qed

text \<open>
  C2 as the specification has it fails: after a server error for the zone the error list
  has the line of the zone failure only; the notice of the purchase is logged.
\<close>

theorem zone_failure_notice_counterexample:
  "(case fst (runWorkflow zoneErrorEnv ''example-test.com'' 1 True []) of
      Inl e \<Rightarrow> [] | Inr r \<Rightarrow> WorkflowResult.errors r) =
     [''Cloudflare Zone: Request failed with status code 500''] \<and>
   Log LogWarn (refundNotice ''example-test.com'') \<in>
     set (snd (runWorkflow zoneErrorEnv ''example-test.com'' 1 True []))"
  by (simp add: adapter_defs workflow_defs example_defs Let_def)

section \<open>A delegation that fails once\<close>

text \<open>
  C5 on an example. The first request to set the nameservers dies on the network and a
  second one would be answered well. \<open>setNameservers\<close> returns the failure as a result,
  so \<open>retry\<close> sees no exception: one request is sent, nothing is awaited, the error is
  recorded and \<open>rollback\<close> runs.
\<close>

theorem single_delegation_failure_aborts:
  "runWorkflow flakyRegistrarEnv ''example-test.com'' 1 True [] =
     (Inr \<lparr>WorkflowResult.success = False,
        steps = \<lparr>availabilityCheck = True, domainPurchase = True, cloudflareZone = True,
                 nameserversSet = False, dnsRecords = False, vercelDomain = False,
                 vercelVerified = False\<rparr>,
        details = \<lparr>Details.domainId = Some ''D1'', Details.transactionId = Some ''T1'',
                   Details.cloudflareZoneId = Some ''Z1'',
                   cloudflareNameservers = Some [''ns1.x'', ''ns2.x''], dnsRecordIds = None\<rparr>,
        errors = [''Nameservers: socket hang up'']\<rparr>,
      [Http (DomainsCheck ''example-test.com''),
       Http (DomainsCreate ''example-test.com'' 1 True
         \<lparr>addressId = Some [], addressName = ''env'', isDefault = True,
          firstName = ''set'', lastName = ''set'', address1 = ''set'', address2 = ''set'',
          city = ''set'', stateProvince = ''set'', postalCode = ''set'', country = ''set'',
          phone = ''set'', email = ''set''\<rparr>),
       Http (PostZone ''example-test.com''),
       Http (DnsSetCustom ''example-test'' ''com'' ''ns1.x,ns2.x''),
       Log LogWarn banner, Log LogWarn ''INITIATING ROLLBACK...'', Log LogWarn banner,
       Log LogWarn (refundNotice ''example-test.com''), Log LogInfo ''Rollback completed''])"
  by (simp add: adapter_defs workflow_defs example_defs Let_def)

section \<open>The purchase is never undone\<close>

lemma appends_refl: "appends P h h"
  by (simp add: appends_def)

lemma appends_trans: "appends P h h1 \<Longrightarrow> appends P h1 h2 \<Longrightarrow> appends P h h2"
  by (auto simp: appends_def)

lemma appends_one: "P e \<Longrightarrow> appends P h (h @ [e])"
  by (simp add: appends_def)

lemma appends_snoc: "appends P h h1 \<Longrightarrow> P e \<Longrightarrow> appends P h (h1 @ [e])"
  by (auto simp: appends_def)

lemma appends_mono: "appends P h h1 \<Longrightarrow> (\<And>e. P e \<Longrightarrow> Q e) \<Longrightarrow> appends Q h h1"
  by (auto simp: appends_def list_all_iff)

lemma noRegistrar_delegationOnly: "noRegistrar e \<Longrightarrow> delegationOnly e"
  by (cases e rule: delegationOnly.cases) auto

lemma fetchExistingZone_appends: "appends noRegistrar h (snd (fetchExistingZone env d h))"
  by (auto simp: fetchExistingZone_def Let_def intro!: appends_one
      split: axios_reply.splits cf_body.splits list.splits)

lemma createZone_appends: "appends noRegistrar h (snd (createZone env d h))"
proof -
  have one: "appends noRegistrar h (h @ [Http (PostZone d)])"
    by (simp add: appends_one)
  from appends_trans [OF one fetchExistingZone_appends [of "h @ [Http (PostZone d)]" env d]] one
  show ?thesis
    by (auto simp: createZone_def Let_def split: axios_reply.splits cf_body.splits)
qed

lemma setNameservers_appends: "appends delegationOnly h (snd (setNameservers env d ns h))"
  by (auto simp: setNameservers_def Let_def appends_refl intro!: appends_one
      split: sum.splits nc_reply.splits)

lemma retry_loop_appends:
  assumes "\<forall>h'. appends P h' (snd (fn h'))"
    and "\<forall>ms. P (Sleep ms)"
    and "\<forall>f a e h'. onR = Some f \<longrightarrow> appends P h' (f a e h')"
  shows "appends P h (snd (retry_loop fn maxAtt initialDelay maxDelay onR attempt lastError h))"
  using assms
proof (induction fn maxAtt initialDelay maxDelay onR attempt lastError h rule: retry_loop.induct)
  case (1 fn maxAtt initialDelay maxDelay onR attempt lastError h)
  note IH = 1(1) and fn = 1(2) and sleep = 1(3) and onR = 1(4)
  show ?case
  proof (cases "attempt \<le> maxAtt")
    case False
    then show ?thesis by (simp add: retry_loop.simps appends_refl)
  next
    case True
    obtain r h1 where f: "fn h = (r, h1)" by (cases "fn h")
    with fn have a1: "appends P h h1" by (metis snd_conv)
    show ?thesis
    proof (cases r)
      case (Inr v)
      with True f a1 show ?thesis by (simp add: retry_loop.simps)
    next
      case (Inl e)
      show ?thesis
      proof (cases "attempt = maxAtt")
        case yes: True
        with True f Inl a1 show ?thesis by (simp add: retry_loop.simps)
      next
        case no: False
        have a2: "appends P h1 (afterFailure initialDelay maxDelay onR attempt e h1)"
          using onR sleep
          by (auto simp: afterFailure_def delay_def Let_def appends_one
              intro: appends_snoc split: option.splits)
        from IH [OF True f [symmetric] Inl no fn sleep onR]
        have "appends P (afterFailure initialDelay maxDelay onR attempt e h1)
            (snd (retry_loop fn maxAtt initialDelay maxDelay onR (attempt + 1) (Some e)
               (afterFailure initialDelay maxDelay onR attempt e h1)))"
          by simp
        from appends_trans [OF a1 appends_trans [OF a2 this]] True f Inl no
        show ?thesis by (simp add: retry_loop.simps [of fn maxAtt _ _ _ attempt])
      qed
    qed
  qed
qed

lemma createDNSRecord_appends: "appends noRegistrar h (snd (createDNSRecord env zoneId r h))"
  by (auto simp: createDNSRecord_def Let_def intro!: appends_one
      split: axios_reply.splits cf_body.splits)

lemma createDNSRecords_loop_appends:
  "appends noRegistrar h (snd (snd (createDNSRecords_loop env zoneId rs ids errs h)))"
proof (induction rs arbitrary: ids errs h)
  case Nil
  show ?case by (simp add: appends_refl)
next
  case (Cons r rs)
  obtain res h1 where c: "createDNSRecord env zoneId r h = (res, h1)"
    by (cases "createDNSRecord env zoneId r h")
  with createDNSRecord_appends [of h env zoneId r] have "appends noRegistrar h h1" by simp
  with c Cons.IH [where h = h1] show ?case
    by (auto intro: appends_trans)
qed

lemma createDNSRecords_appends:
  "appends noRegistrar h (snd (createDNSRecords env zoneId rs h))"
  using createDNSRecords_loop_appends [of h env zoneId rs "[]" "[]"]
  by (cases "createDNSRecords_loop env zoneId rs [] [] h") (simp add: createDNSRecords_def)

lemma createVerificationRecords_appends:
  "appends noRegistrar h (snd (createVerificationRecords env zoneId vs ids h))"
proof (induction vs arbitrary: ids h)
  case Nil
  show ?case by (simp add: appends_refl)
next
  case (Cons v vs)
  let ?r = "\<lparr>DNSRecord.type = TXT, DNSRecord.name = VerificationRecord.name v,
             content = VerificationRecord.val v, ttl = None, proxied = None, priority = None\<rparr>"
  obtain res h1 where c: "createDNSRecord env zoneId ?r h = (res, h1)"
    by (cases "createDNSRecord env zoneId ?r h")
  with createDNSRecord_appends [of h env zoneId ?r] have "appends noRegistrar h h1" by simp
  with c Cons.IH [where h = h1] Cons.IH [where h = h] show ?case
    by (auto intro: appends_trans)
qed

lemma getDomainStatus_appends: "appends noRegistrar h (snd (getDomainStatus env d h))"
  by (auto simp: getDomainStatus_def Let_def intro!: appends_one split: axios_reply.splits)

lemma addDomain_appends: "appends noRegistrar h (snd (addDomain env d h))"
proof -
  have one: "appends noRegistrar h (h @ [Http (PostDomain d)])"
    by (simp add: appends_one)
  from appends_trans [OF one getDomainStatus_appends [of "h @ [Http (PostDomain d)]" env d]] one
  show ?thesis
    by (auto simp: addDomain_def Let_def split: axios_reply.splits)
qed

lemma verifyDomain_appends: "appends noRegistrar h (snd (verifyDomain env d h))"
  by (auto simp: verifyDomain_def Let_def intro!: appends_one split: axios_reply.splits)

lemma waitForDomainVerification_loop_appends:
  "appends noRegistrar h (snd (waitForDomainVerification_loop env d maxAtt ms attempt h))"
proof (induction env d maxAtt ms attempt h rule: waitForDomainVerification_loop.induct)
  case (1 env d maxAtt ms attempt h)
  show ?case
  proof (cases "attempt \<le> maxAtt")
    case False
    then show ?thesis
      by (simp add: waitForDomainVerification_loop.simps appends_refl)
  next
    case True
    obtain r h1 where v: "verifyDomain env d h = (r, h1)"
      by (cases "verifyDomain env d h")
    with verifyDomain_appends [of h env d] have a1: "appends noRegistrar h h1" by simp
    show ?thesis
    proof (cases "VerifyDomainResult.verified r")
      case yes: True
      with True v a1 show ?thesis
        by (simp add: waitForDomainVerification_loop.simps)
    next
      case no: False
      have a2: "appends noRegistrar h1 (if attempt < maxAtt then delay ms h1 else h1)"
        by (simp add: delay_def appends_one appends_refl)
      from appends_trans [OF a1 appends_trans [OF a2 1 [OF True v [symmetric] no]]] True v no
      show ?thesis
        by (simp add: waitForDomainVerification_loop.simps [of env d maxAtt ms attempt])
    qed
  qed
qed

lemma removeDomain_appends: "appends noRegistrar h (snd (removeDomain env d h))"
  by (auto simp: removeDomain_def Let_def intro!: appends_one split: axios_reply.splits)

lemma deleteDNSRecord_appends: "appends noRegistrar h (snd (deleteDNSRecord env zoneId rid h))"
  by (auto simp: deleteDNSRecord_def Let_def intro!: appends_one
      split: axios_reply.splits cf_body.splits)

lemma deleteDNSRecords_appends: "appends noRegistrar h (deleteDNSRecords env zoneId rids h)"
proof (induction rids arbitrary: h)
  case Nil
  show ?case by (simp add: appends_refl)
next
  case (Cons rid rids)
  from appends_trans [OF deleteDNSRecord_appends Cons.IH]
  show ?case by simp
qed

lemma rollback_events:
  "\<exists>evs. rollback env state h = h @ evs \<and> list_all noRegistrar evs \<and>
     (domainPurchased state \<longrightarrow>
        Log LogWarn (refundNotice (WorkflowState.domain state)) \<in> set evs)"
proof -
  define h1 where "h1 = h @ rollbackHeading"
  define h2 where "h2 = (if vercelDomainAdded state
      then snd (removeDomain env (WorkflowState.domain state) h1) @
           [Log LogInfo ''Removed domain from Vercel'']
      else h1)"
  define h3 where "h3 = (if truthy (WorkflowState.cloudflareZoneId state) \<and>
         length (cloudflareRecordIds state) > 0
      then deleteDNSRecords env (the (WorkflowState.cloudflareZoneId state))
             (cloudflareRecordIds state) h2 @
           [Log LogInfo ''Deleted DNS records from Cloudflare'']
      else h2)"
  define e4 where "e4 = (if domainPurchased state
      then [Log LogWarn (refundNotice (WorkflowState.domain state))] else [])"
  have r: "rollback env state h = h3 @ e4 @ [Log LogInfo ''Rollback completed'']"
    by (simp add: rollback_def Let_def h1_def h2_def h3_def e4_def rollbackHeading_def)
  have a1: "appends noRegistrar h h1"
    by (simp add: h1_def appends_def rollbackHeading_def)
  have a2: "appends noRegistrar h1 h2"
    by (simp add: h2_def appends_refl appends_snoc removeDomain_appends)
  have a3: "appends noRegistrar h2 h3"
    by (simp add: h3_def appends_refl appends_snoc deleteDNSRecords_appends)
  from appends_trans [OF a1 appends_trans [OF a2 a3]]
  obtain evs where evs: "h3 = h @ evs" "list_all noRegistrar evs"
    by (auto simp: appends_def)
  have "rollback env state h = h @ (evs @ e4 @ [Log LogInfo ''Rollback completed''])"
    by (simp add: r evs)
  moreover have "list_all noRegistrar (evs @ e4 @ [Log LogInfo ''Rollback completed''])"
    using evs by (simp add: e4_def)
  moreover have "domainPurchased state \<longrightarrow>
      Log LogWarn (refundNotice (WorkflowState.domain state)) \<in>
        set (evs @ e4 @ [Log LogInfo ''Rollback completed''])"
    by (simp add: e4_def)
  ultimately show ?thesis by blast
qed

lemma rollback_appends: "appends noRegistrar h (rollback env state h)"
  using rollback_events [of env state h] by (auto simp: appends_def)

lemma to_delegationOnly: "appends noRegistrar h h1 \<Longrightarrow> appends delegationOnly h h1"
  by (erule appends_mono) (rule noRegistrar_delegationOnly)

lemma step7_appends:
  "appends delegationOnly h (snd (snd (snd (step7 env d state result h))))"
  using to_delegationOnly [OF waitForDomainVerification_loop_appends [of h env d 10 30000 1]]
  by (cases "waitForDomainVerification_loop env d 10 30000 1 h")
    (simp add: step7_def waitForDomainVerification_def Let_def)

lemma step6_appends:
  "appends delegationOnly h (snd (snd (snd (step6 env d zone' state result h))))"
proof (cases "validateConfig (config env) Vercel")
  case (Inl e)
  then show ?thesis by (simp add: step6_def appends_refl)
next
  case (Inr u)
  obtain r h1 where add: "addDomain env d h = (r, h1)"
    by (cases "addDomain env d h")
  with to_delegationOnly [OF addDomain_appends [of h env d]]
  have a1: "appends delegationOnly h h1" by simp
  show ?thesis
  proof (cases "AddDomainResult.success r")
    case False
    with Inr add appends_trans [OF a1 to_delegationOnly [OF rollback_appends]]
    show ?thesis by (simp add: step6_def)
  next
    case True
    show ?thesis
    proof (cases "verificationRequired r = Some True \<and> verificationRecords r \<noteq> None")
      case no: False
      with Inr add True appends_trans [OF a1 step7_appends]
      show ?thesis by (auto simp: step6_def Let_def)
    next
      case yes: True
      obtain ids h2 where c: "createVerificationRecords env (zid zone')
          (the (verificationRecords r)) (cloudflareRecordIds state) h1 = (ids, h2)"
        by (cases "createVerificationRecords env (zid zone')
          (the (verificationRecords r)) (cloudflareRecordIds state) h1")
      with to_delegationOnly [OF createVerificationRecords_appends [of h1 env "zid zone'"
            "the (verificationRecords r)" "cloudflareRecordIds state"]]
      have a2: "appends delegationOnly h1 h2" by simp
      from Inr add True yes c appends_trans [OF a1 appends_trans [OF a2 step7_appends]]
      show ?thesis by (auto simp: step6_def Let_def)
    qed
  qed
qed

lemma step5_appends:
  "appends delegationOnly h (snd (snd (snd (step5 env d zone' state result h))))"
proof -
  define records where "records = map (\<lambda>(t, n, c). \<lparr>DNSRecord.type = t,
      DNSRecord.name = (if n = ''@'' then d else n),
      content = c, ttl = None, proxied = Some False, priority = None\<rparr>) (getVercelDNSRecords d)"
  obtain r h1 where dns: "createDNSRecords env (zid zone') records h = (r, h1)"
    by (cases "createDNSRecords env (zid zone') records h")
  with to_delegationOnly [OF createDNSRecords_appends [of h env "zid zone'" records]]
  have a1: "appends delegationOnly h h1" by simp
  from dns appends_trans [OF a1 step6_appends]
  show ?thesis by (simp add: step5_def Let_def records_def)
qed

lemma step4_appends:
  "appends delegationOnly h (snd (snd (snd (step4 env d zone' state result h))))"
proof -
  define opts :: "error retry_options" where
    "opts = \<lparr>maxAttempts = Some 3, initialDelayMs = Some 5000, maxDelayMs = None,
              onRetry = Some (\<lambda>attempt error h'. h')\<rparr>"
  obtain out h1 where r: "retry (setNameservers env d (nameServers zone')) opts h = (out, h1)"
    by (cases "retry (setNameservers env d (nameServers zone')) opts h")
  have "appends delegationOnly h (snd (retry_loop (setNameservers env d (nameServers zone'))
      3 5000 30000 (Some (\<lambda>attempt error h'. h')) 1 None h))"
    by (rule retry_loop_appends) (auto simp: setNameservers_appends appends_refl)
  with r have a1: "appends delegationOnly h h1"
    by (simp add: retry_def opts_def)
  show ?thesis
  proof (cases out)
    case (Inl thrown)
    with r a1 show ?thesis by (simp add: step4_def opts_def)
  next
    case (Inr nsResult)
    with r appends_trans [OF a1 to_delegationOnly [OF rollback_appends]]
      appends_trans [OF a1 step5_appends]
    show ?thesis by (simp add: step4_def opts_def)
  qed
qed

lemma step3_appends:
  "appends delegationOnly h (snd (snd (snd (step3 env d state result h))))"
proof (cases "validateConfig (config env) Cloudflare")
  case (Inl e)
  then show ?thesis by (simp add: step3_def appends_refl)
next
  case (Inr u)
  obtain r h1 where z: "createZone env d h = (r, h1)"
    by (cases "createZone env d h")
  with to_delegationOnly [OF createZone_appends [of h env d]]
  have a1: "appends delegationOnly h h1" by simp
  from Inr z appends_trans [OF a1 to_delegationOnly [OF rollback_appends]]
    appends_trans [OF a1 step4_appends]
  show ?thesis by (auto simp: step3_def Let_def)
qed

lemma afterPurchase_Cons:
  "afterPurchase (e # evs) = (if isPurchase e then evs else afterPurchase evs)"
  by (simp add: afterPurchase_def)

lemma afterPurchase_subset: "list_all Q evs \<Longrightarrow> list_all Q (afterPurchase evs)"
  by (induction evs) (auto simp: afterPurchase_Cons, simp add: afterPurchase_def)

lemma afterPurchase_append:
  "list_all Q (afterPurchase xs) \<Longrightarrow> list_all Q ys \<Longrightarrow> list_all Q (afterPurchase (xs @ ys))"
  by (induction xs) (auto simp: afterPurchase_Cons afterPurchase_subset)

lemma afterPurchase_before:
  "list_all (\<lambda>e. \<not> isPurchase e) xs \<Longrightarrow> afterPurchase (xs @ ys) = afterPurchase ys"
  by (induction xs) (auto simp: afterPurchase_Cons)

lemma purchaseThenDelegation_then:
  "purchaseThenDelegation h h1 \<Longrightarrow> appends delegationOnly h1 h2 \<Longrightarrow>
   purchaseThenDelegation h h2"
  by (auto simp: purchaseThenDelegation_def appends_def intro: afterPurchase_append)

lemma purchaseThenDelegation_before:
  "appends (\<lambda>e. \<not> isPurchase e) h h1 \<Longrightarrow> purchaseThenDelegation h1 h2 \<Longrightarrow>
   purchaseThenDelegation h h2"
  by (auto simp: purchaseThenDelegation_def appends_def afterPurchase_before)

lemma purchaseThenDelegation_refl: "purchaseThenDelegation h h"
  by (simp add: purchaseThenDelegation_def afterPurchase_def)

lemma purchaseThenDelegation_purchase:
  "purchaseThenDelegation h (h @ [Http (DomainsCreate d y w c)])"
  by (simp add: purchaseThenDelegation_def afterPurchase_def)

lemma getAddressInfo_appends:
  "appends (\<lambda>e. \<not> isPurchase e) h (snd (getAddressInfo env aid h))"
  by (auto simp: getAddressInfo_def Let_def intro!: appends_one
      split: nc_reply.splits option.splits)

lemma getDefaultAddress_appends:
  "appends (\<lambda>e. \<not> isPurchase e) h (snd (getDefaultAddress env h))"
proof -
  obtain as h1 where l: "getAddressList env h = (as, h1)"
    by (cases "getAddressList env h")
  then have a1: "appends (\<lambda>e. \<not> isPurchase e) h h1"
    by (auto simp: getAddressList_def Let_def intro!: appends_one split: nc_reply.splits)
  from l a1 appends_trans [OF a1 getAddressInfo_appends]
  show ?thesis
    by (auto simp: getDefaultAddress_def split: option.splits list.splits)
qed

lemma purchaseDomain_history:
  "purchaseThenDelegation h (snd (purchaseDomain env d years' enableWhoisGuard' h))"
proof (cases "splitDomain d")
  case (Inl e)
  then show ?thesis by (simp add: purchaseDomain_def purchaseThenDelegation_refl)
next
  case (Inr parts)
  show ?thesis
  proof (cases "useDefaultContacts (config env)")
    case False
    with Inr show ?thesis
      by (auto simp: purchaseDomain_def Let_def purchaseThenDelegation_purchase
          split: nc_reply.splits option.splits prod.splits)
  next
    case True
    obtain c h1 where a: "getDefaultAddress env h = (c, h1)"
      by (cases "getDefaultAddress env h")
    with getDefaultAddress_appends [of h env]
    have a1: "appends (\<lambda>e. \<not> isPurchase e) h h1" by simp
    note before = purchaseThenDelegation_before [OF a1]
    from Inr True a before [OF purchaseThenDelegation_refl]
      before [OF purchaseThenDelegation_purchase]
    show ?thesis
      by (auto simp: purchaseDomain_def Let_def
          split: nc_reply.splits option.splits prod.splits)
  qed
qed

lemma step2_history:
  "purchaseThenDelegation h
     (snd (snd (snd (step2 env d years' enableWhoisGuard' state result h))))"
proof (cases "validateConfig (config env) Registrant")
  case (Inl e)
  then show ?thesis by (simp add: step2_def purchaseThenDelegation_refl)
next
  case (Inr u)
  obtain out h1 where p: "purchaseDomain env d years' enableWhoisGuard' h = (out, h1)"
    by (cases "purchaseDomain env d years' enableWhoisGuard' h")
  with purchaseDomain_history [of h env d years' enableWhoisGuard']
  have a1: "purchaseThenDelegation h h1" by simp
  from Inr p a1 purchaseThenDelegation_then [OF a1 step3_appends]
  show ?thesis
    by (auto simp: step2_def Let_def split: sum.splits)
qed

lemma step1_history:
  "purchaseThenDelegation h
     (snd (snd (snd (step1 env d years' enableWhoisGuard' state result h))))"
proof (cases "validateConfig (config env) Namecheap")
  case (Inl e)
  then show ?thesis by (simp add: step1_def purchaseThenDelegation_refl)
next
  case (Inr u)
  obtain a h1 where c: "checkAvailability env d h = (a, h1)"
    by (cases "checkAvailability env d h")
  then have a1: "appends (\<lambda>e. \<not> isPurchase e) h h1"
    by (auto simp: checkAvailability_def Let_def intro!: appends_one
        split: nc_reply.splits option.splits)
  from Inr c purchaseThenDelegation_before [OF a1 purchaseThenDelegation_refl]
    purchaseThenDelegation_before [OF a1 step2_history]
  show ?thesis
    by (auto simp: step1_def)
qed

lemma runWorkflow_history:
  "purchaseThenDelegation h (snd (runWorkflow env d years' enableWhoisGuard' h))"
proof -
  obtain c state result h1 where
    s: "step1 env d years' enableWhoisGuard' (initialState d years' enableWhoisGuard')
          initialResult h = (c, state, result, h1)"
    by (cases "step1 env d years' enableWhoisGuard' (initialState d years' enableWhoisGuard')
          initialResult h") auto
  with step1_history [of h env d years' enableWhoisGuard'
      "initialState d years' enableWhoisGuard'" initialResult]
  have a1: "purchaseThenDelegation h h1" by simp
  from s a1 purchaseThenDelegation_then [OF a1 to_delegationOnly [OF rollback_appends]]
  show ?thesis
    by (auto simp: runWorkflow_def runWorkflow_state_def split: completion.splits option.splits)
qed

text \<open>
  C3. \<open>rollback\<close> sends no request to the registrar, and for a purchased domain it
  logs the notice that the purchase cannot be refunded. From step 3 on, that is once
  \<open>domainPurchased\<close> is set, the only requests to the registrar delegate the nameservers.
  In a whole run of \<open>runWorkflow\<close>, the only requests to the registrar that follow the
  purchase request delegate the nameservers.
\<close>

theorem purchase_is_never_undone:
  "(\<exists>evs. rollback env state h = h @ evs \<and> list_all noRegistrar evs \<and>
      (domainPurchased state \<longrightarrow>
         Log LogWarn (refundNotice (WorkflowState.domain state)) \<in> set evs)) \<and>
   (\<exists>evs. snd (snd (snd (step3 env d state result h))) = h @ evs \<and>
      list_all delegationOnly evs) \<and>
   (\<exists>evs. snd (runWorkflow env d years' enableWhoisGuard' h) = h @ evs \<and>
      list_all delegationOnly (afterPurchase evs))"
  using rollback_events [of env state h] step3_appends [of h env d state result]
    runWorkflow_history [of h env d years' enableWhoisGuard']
  unfolding appends_def purchaseThenDelegation_def by blast

theorem purchase_is_never_undone_witness:
  "domainPurchased provisionedState \<and>
   rollback exampleEnv provisionedState [] =
     rollbackHeading @
     [Http (DeleteDomain ''example-test.com''), Log LogInfo ''Removed domain from Vercel'',
      Http (DeleteRecord ''Z1'' ''R-www''), Log LogInfo ''Deleted DNS records from Cloudflare'',
      Log LogWarn (refundNotice ''example-test.com''), Log LogInfo ''Rollback completed''] \<and>
   list_all noRegistrar (rollback exampleEnv provisionedState []) \<and>
   list_all delegationOnly
     (afterPurchase (snd (runWorkflow exampleEnv ''example-test.com'' 1 True [])))"
proof -
  have r: "rollback exampleEnv provisionedState [] =
     rollbackHeading @
     [Http (DeleteDomain ''example-test.com''), Log LogInfo ''Removed domain from Vercel'',
      Http (DeleteRecord ''Z1'' ''R-www''), Log LogInfo ''Deleted DNS records from Cloudflare'',
      Log LogWarn (refundNotice ''example-test.com''), Log LogInfo ''Rollback completed'']"
    by (simp add: rollback_def rollbackHeading_def adapter_defs example_defs Let_def)
  have p: "domainPurchased provisionedState"
    by (simp add: provisionedState_def)
  from purchase_is_never_undone [of exampleEnv provisionedState "[]" "''example-test.com''"
      initialResult 1 True] p r
  show ?thesis
    by auto
qed

end
